theory Spec2Isabelle
  imports Main "HOL-Library.Char_ord" "HOL-Library.List_Lexorder" "HOL-Library.Multiset"
begin

section \<open>The customer-requirements server (server.js)\<close>

text \<open>
  The server is an Express application over a PostgreSQL pool and the Cloudinary
  uploader. Each route handler of server.js is a function here from the request and
  the world (the uploader's state, the store, the trace of calls made) to the response
  and the new world. Each SQL statement of server.js is a function on the store that
  does what PostgreSQL does with the statement on the schema that initializeDb declares:
  the column types, NOT NULL, UNIQUE, REFERENCES ... ON DELETE CASCADE, DEFAULT and
  SERIAL. A failure of the connection itself is outside the model: a statement fails
  only for a reason that its text, its parameters and the schema give. What server.js
  does not fix of the database, the collation by which it orders texts, is a part of
  the store that every statement leaves as it is and that the properties hold for
  whatever it is.
\<close>

subsection \<open>Request values\<close>

text \<open>
  A field of \<open>req.body\<close> is a text or is absent (\<open>undefined\<close>, or \<open>null\<close> in a
  JSON body): \<open>None\<close> here. node-postgres sends either as SQL NULL. A text is a
  sequence of characters, and \<open>length\<close> counts its characters. The character
  U+0000, which a JSON or a multipart body can carry, is \<open>CHR 0x00\<close>; every other
  character is one that the database's encoding holds. \<open>falsy\<close> is the operator
  \<open>!\<close> on such a value: true of an absent value and of the empty text.
\<close>

definition falsy :: "string option \<Rightarrow> bool" where
  "falsy v = (case v of None \<Rightarrow> True | Some s \<Rightarrow> s = [])"

text \<open>\<open>String.prototype.startsWith\<close>.\<close>

definition startsWith :: "string \<Rightarrow> string \<Rightarrow> bool" where
  "startsWith s p = (take (length p) s = p)"

text \<open>A file as multer's memory storage hands it over.\<close>

record media_file =
  mimetype :: string
  buffer :: string

subsection \<open>The schema (initializeDb)\<close>

text \<open>
  \<^verbatim>\<open>requirement_types (id SERIAL PRIMARY KEY, name VARCHAR(255) UNIQUE NOT NULL)\<close>
\<close>

record requirement_type =
  rt_id :: int
  rt_name :: string

text \<open>
  \<^verbatim>\<open>requirements (id SERIAL PRIMARY KEY, customer VARCHAR(255) NOT NULL,
    contact VARCHAR(255), type VARCHAR(255) NOT NULL, details TEXT NOT NULL,
    follow_up TEXT, status VARCHAR(50) DEFAULT 'Pending', images TEXT[], videos TEXT[],
    created_at TIMESTAMP WITH TIME ZONE DEFAULT CURRENT_TIMESTAMP)\<close>

  A column without NOT NULL that a statement of the server can set to NULL is an
  option. \<open>images\<close>, \<open>videos\<close> and \<open>created_at\<close> are only ever written by the
  INSERT, with an array or the default: they are never NULL.
\<close>

record requirement =
  req_id :: int
  req_customer :: string
  req_contact :: "string option"
  req_type :: string
  req_details :: string
  req_follow_up :: "string option"
  req_status :: "string option"
  req_images :: "string list"
  req_videos :: "string list"
  req_created_at :: nat

text \<open>
  \<^verbatim>\<open>comments (id SERIAL PRIMARY KEY,
    requirement_id INTEGER REFERENCES requirements(id) ON DELETE CASCADE,
    text TEXT, images TEXT[], videos TEXT[],
    created_at TIMESTAMP WITH TIME ZONE DEFAULT CURRENT_TIMESTAMP)\<close>
\<close>

record comment =
  com_id :: int
  com_requirement_id :: int
  com_text :: "string option"
  com_images :: "string list"
  com_videos :: "string list"
  com_created_at :: nat

text \<open>
  The store: the rows of each table in the order of their insertion, the next value of
  each SERIAL column's sequence, and the collation of the database, which is set when
  the database is created and which server.js neither sets nor names. The collation is
  given as the function from a text to its sort key (\<open>strxfrm\<close>): ORDER BY on a text
  column orders the rows by the byte order of the keys of their texts. The identity is
  the collation C; a collation such as en_US gives \<open>apple\<close> a key before that of
  \<open>Bug\<close>.
\<close>

record db =
  requirement_types :: "requirement_type list"
  requirement_types_id_seq :: int
  requirements :: "requirement list"
  requirements_id_seq :: int
  comments :: "comment list"
  comments_id_seq :: int
  datcollate :: "string \<Rightarrow> string"

text \<open>The errors with which PostgreSQL rejects a statement of the server.\<close>

datatype pg_error =
    SyntaxError
  | CharacterNotInRepertoire
  | NumericValueOutOfRange
  | StringDataRightTruncation
  | SequenceLimitExceeded
  | NotNullViolation
  | UniqueViolation
  | ForeignKeyViolation

text \<open>
  A parameter compared with or stored in an INTEGER column: the server passes the text
  of the path parameter \<open>:id\<close>, and PostgreSQL reads it as a 32-bit integer. The model
  takes the integer that the text denotes; a text that denotes an integer out of range
  is rejected (as is, with the same response of every handler, a text that denotes
  none).
\<close>

definition is_int4 :: "int \<Rightarrow> bool" where
  "is_int4 i = (- 2147483648 \<le> i \<and> i \<le> 2147483647)"

definition int4 :: "int \<Rightarrow> pg_error + int" where
  "int4 i = (if is_int4 i then Inr i else Inl NumericValueOutOfRange)"

text \<open>
  A text parameter, of whatever column: PostgreSQL rejects a text that holds the
  character U+0000 when it reads the parameter (error 22021); NULL and every other text
  it takes as they are.
\<close>

definition text_ok :: "string option \<Rightarrow> bool" where
  "text_ok v = (case v of None \<Rightarrow> True | Some s \<Rightarrow> CHR 0x00 \<notin> set s)"

definition pg_text :: "string option \<Rightarrow> pg_error + string option" where
  "pg_text v = (if text_ok v then Inr v else Inl CharacterNotInRepertoire)"

text \<open>
  A parameter stored in a VARCHAR(n) column: it is read as a text; then NULL stays
  NULL, and a text longer than \<open>n\<close> is rejected, unless the characters beyond \<open>n\<close>
  are all spaces, which are cut off.
\<close>

definition varchar :: "nat \<Rightarrow> string option \<Rightarrow> pg_error + string option" where
  "varchar n v =
     (case pg_text v of
        Inl e \<Rightarrow> Inl e
      | Inr None \<Rightarrow> Inr None
      | Inr (Some s) \<Rightarrow>
          if length s \<le> n then Inr (Some s)
          else if list_all (\<lambda>c. c = CHR '' '') (drop n s) then Inr (Some (take n s))
          else Inl StringDataRightTruncation)"

text \<open>
  \<open>nextval\<close> of a SERIAL column's sequence, whose last value is \<open>2147483647\<close>. The
  caller advances the sequence; PostgreSQL does not take the value back when the
  statement fails later.
\<close>

definition nextval :: "int \<Rightarrow> pg_error + int" where
  "nextval s = (if s \<le> 2147483647 then Inr s else Inl SequenceLimitExceeded)"

subsection \<open>The statements\<close>

text \<open>
  Each statement takes its parameters in the order of \<open>$1, $2, ...\<close> and the store, and
  returns \<open>result.rows\<close> or the error, with the store after it. When more than one
  parameter is rejected, the error is that of the first one here; the handlers do not
  tell one error of the store from another. The elements of the arrays \<open>images\<close> and
  \<open>videos\<close> are the URLs that the hosting service has answered with, which hold no
  U+0000.

  \<^verbatim>\<open>SELECT * FROM requirements ORDER BY created_at DESC\<close>
  (rows of equal \<open>created_at\<close> come in an order that SQL leaves open; the model fixes
  one).
\<close>

definition select_requirements :: "db \<Rightarrow> (pg_error + requirement list) \<times> db" where
  "select_requirements d = (Inr (rev (sort_key req_created_at (requirements d))), d)"

text \<open>
  \<^verbatim>\<open>SELECT * FROM comments WHERE requirement_id = $1 ORDER BY created_at ASC\<close>
  (the parameter is the \<open>id\<close> of a row just read, an integer of the column's type).
\<close>

definition select_comments :: "int \<Rightarrow> db \<Rightarrow> (pg_error + comment list) \<times> db" where
  "select_comments rid d =
     (Inr (sort_key com_created_at
             (filter (\<lambda>c. com_requirement_id c = rid) (comments d))), d)"

text \<open>
  \<^verbatim>\<open>INSERT INTO requirements (customer, contact, type, details, follow_up, images, videos)
    VALUES ($1, $2, $3, $4, $5, $6, $7) RETURNING *;\<close>
  \<open>now\<close> is CURRENT_TIMESTAMP. The id is the sequence's next value, the status the
  column's default.
\<close>

definition insert_requirement ::
  "nat \<Rightarrow> string option \<Rightarrow> string option \<Rightarrow> string option \<Rightarrow> string option \<Rightarrow>
   string option \<Rightarrow> string list \<Rightarrow> string list \<Rightarrow> db \<Rightarrow> (pg_error + requirement list) \<times> db" where
  "insert_requirement now customer contact type details follow_up images videos d =
     (case varchar 255 customer of Inl e \<Rightarrow> (Inl e, d) | Inr customer' \<Rightarrow>
     (case varchar 255 contact of Inl e \<Rightarrow> (Inl e, d) | Inr contact' \<Rightarrow>
     (case varchar 255 type of Inl e \<Rightarrow> (Inl e, d) | Inr type' \<Rightarrow>
     (case pg_text details of Inl e \<Rightarrow> (Inl e, d) | Inr details' \<Rightarrow>
     (case pg_text follow_up of Inl e \<Rightarrow> (Inl e, d) | Inr follow_up' \<Rightarrow>
     (case nextval (requirements_id_seq d) of
        Inl e \<Rightarrow> (Inl e, d)
      | Inr new_id \<Rightarrow>
          let d' = d\<lparr>requirements_id_seq := new_id + 1\<rparr> in
          (case (customer', type', details') of
             (Some c, Some t, Some dt) \<Rightarrow>
               let row = \<lparr>req_id = new_id, req_customer = c, req_contact = contact',
                          req_type = t, req_details = dt, req_follow_up = follow_up',
                          req_status = Some ''Pending'', req_images = images,
                          req_videos = videos, req_created_at = now\<rparr>
               in (Inr [row], d'\<lparr>requirements := requirements d' @ [row]\<rparr>)
           | _ \<Rightarrow> (Inl NotNullViolation, d'))))))))"

text \<open>
  \<^verbatim>\<open>UPDATE requirements SET status = $1 WHERE id = $2 RETURNING *;\<close>
\<close>

definition update_status :: "string option \<Rightarrow> int \<Rightarrow> db \<Rightarrow> (pg_error + requirement list) \<times> db" where
  "update_status status i d =
     (case int4 i of
        Inl e \<Rightarrow> (Inl e, d)
      | Inr i' \<Rightarrow>
          (case varchar 50 status of
             Inl e \<Rightarrow> (Inl e, d)
           | Inr status' \<Rightarrow>
               let rows' = map (\<lambda>r. if req_id r = i' then r\<lparr>req_status := status'\<rparr> else r)
                             (requirements d)
               in (Inr (filter (\<lambda>r. req_id r = i') rows'), d\<lparr>requirements := rows'\<rparr>)))"

text \<open>
  \<^verbatim>\<open>UPDATE requirements SET customer = $1, contact = $2, type = $3, details = $4
    WHERE id = $5 RETURNING *;\<close>
  NOT NULL is checked on the rows that the statement writes.
\<close>

definition update_details ::
  "string option \<Rightarrow> string option \<Rightarrow> string option \<Rightarrow> string option \<Rightarrow> int \<Rightarrow> db \<Rightarrow>
   (pg_error + requirement list) \<times> db" where
  "update_details customer contact type details i d =
     (case varchar 255 customer of Inl e \<Rightarrow> (Inl e, d) | Inr customer' \<Rightarrow>
     (case varchar 255 contact of Inl e \<Rightarrow> (Inl e, d) | Inr contact' \<Rightarrow>
     (case varchar 255 type of Inl e \<Rightarrow> (Inl e, d) | Inr type' \<Rightarrow>
     (case pg_text details of Inl e \<Rightarrow> (Inl e, d) | Inr details' \<Rightarrow>
     (case int4 i of
        Inl e \<Rightarrow> (Inl e, d)
      | Inr i' \<Rightarrow>
          (case (customer', type', details') of
             (Some c, Some t, Some dt) \<Rightarrow>
               let rows' = map (\<lambda>r. if req_id r = i'
                                      then r\<lparr>req_customer := c, req_contact := contact',
                                             req_type := t, req_details := dt\<rparr>
                                      else r) (requirements d)
               in (Inr (filter (\<lambda>r. req_id r = i') rows'), d\<lparr>requirements := rows'\<rparr>)
           | _ \<Rightarrow>
               if filter (\<lambda>r. req_id r = i') (requirements d) = [] then (Inr [], d)
               else (Inl NotNullViolation, d)))))))"

text \<open>
  \<^verbatim>\<open>DELETE FROM requirements WHERE id = $1 RETETING *;\<close>
  The text of the statement is not SQL (\<open>RETETING\<close> stands where \<open>RETURNING\<close> is
  meant): PostgreSQL rejects it when it parses it, whatever the parameter and the
  store, and deletes nothing. It is the only statement of the server that names a
  requirement to delete, so ON DELETE CASCADE never has a row to act on.
\<close>

definition delete_requirement :: "int \<Rightarrow> db \<Rightarrow> (pg_error + requirement list) \<times> db" where
  "delete_requirement i d = (Inl SyntaxError, d)"

text \<open>
  \<^verbatim>\<open>INSERT INTO comments (requirement_id, text, images, videos)
    VALUES ($1, $2, $3, $4) RETURNING *;\<close>
  The foreign key is checked after the row is formed.
\<close>

definition insert_comment ::
  "nat \<Rightarrow> int \<Rightarrow> string option \<Rightarrow> string list \<Rightarrow> string list \<Rightarrow> db \<Rightarrow>
   (pg_error + comment list) \<times> db" where
  "insert_comment now i txt images videos d =
     (case int4 i of Inl e \<Rightarrow> (Inl e, d) | Inr i' \<Rightarrow>
     (case pg_text txt of Inl e \<Rightarrow> (Inl e, d) | Inr txt' \<Rightarrow>
     (case nextval (comments_id_seq d) of
        Inl e \<Rightarrow> (Inl e, d)
      | Inr new_id \<Rightarrow>
          let d' = d\<lparr>comments_id_seq := new_id + 1\<rparr> in
          if i' \<in> set (map req_id (requirements d)) then
            let row = \<lparr>com_id = new_id, com_requirement_id = i', com_text = txt',
                       com_images = images, com_videos = videos, com_created_at = now\<rparr>
            in (Inr [row], d'\<lparr>comments := comments d' @ [row]\<rparr>)
          else (Inl ForeignKeyViolation, d'))))"

text \<open>
  \<^verbatim>\<open>SELECT * FROM requirement_types ORDER BY name ASC\<close>
  (the names ordered by the database's collation; rows whose names have the same key
  come in an order that SQL leaves open, and the model fixes one).
\<close>

definition select_types :: "db \<Rightarrow> (pg_error + requirement_type list) \<times> db" where
  "select_types d =
     (Inr (sort_key (\<lambda>t. datcollate d (rt_name t)) (requirement_types d)), d)"

text \<open>
  \<^verbatim>\<open>INSERT INTO requirement_types (name) VALUES ($1) RETURNING *;\<close>
\<close>

definition insert_type :: "string option \<Rightarrow> db \<Rightarrow> (pg_error + requirement_type list) \<times> db" where
  "insert_type name d =
     (case varchar 255 name of
        Inl e \<Rightarrow> (Inl e, d)
      | Inr name' \<Rightarrow>
          (case nextval (requirement_types_id_seq d) of
             Inl e \<Rightarrow> (Inl e, d)
           | Inr new_id \<Rightarrow>
               let d' = d\<lparr>requirement_types_id_seq := new_id + 1\<rparr> in
               (case name' of
                  None \<Rightarrow> (Inl NotNullViolation, d')
                | Some n \<Rightarrow>
                    if n \<in> set (map rt_name (requirement_types d)) then (Inl UniqueViolation, d')
                    else
                      let row = \<lparr>rt_id = new_id, rt_name = n\<rparr>
                      in (Inr [row], d'\<lparr>requirement_types := requirement_types d' @ [row]\<rparr>))))"

text \<open>
  \<^verbatim>\<open>DELETE FROM requirement_types WHERE id = $1 RETURNING *;\<close>
\<close>

definition delete_type :: "int \<Rightarrow> db \<Rightarrow> (pg_error + requirement_type list) \<times> db" where
  "delete_type i d =
     (case int4 i of
        Inl e \<Rightarrow> (Inl e, d)
      | Inr i' \<Rightarrow>
          (Inr (filter (\<lambda>t. rt_id t = i') (requirement_types d)),
           d\<lparr>requirement_types := filter (\<lambda>t. rt_id t \<noteq> i') (requirement_types d)\<rparr>))"

subsection \<open>The world of a handler\<close>

text \<open>
  What a handler does besides answering: a call of \<open>pool.query\<close> (with the statement
  it sends), a call of \<open>cloudinary.uploader.upload\<close> (with the file, which determines
  the data URI, and the resource type), a call of \<open>console.error\<close>.
\<close>

datatype statement =
    SelectRequirements
  | SelectComments
  | InsertRequirement
  | UpdateStatus
  | UpdateDetails
  | DeleteRequirement
  | InsertComment
  | SelectTypes
  | InsertType
  | DeleteType

datatype event =
    PoolQuery statement
  | UploaderUpload media_file string
  | ConsoleError

text \<open>
  The world: the state of the hosting service (of any type \<open>'c\<close>), the store, and the
  calls made so far, oldest first.
\<close>

record 'c world =
  cloud :: 'c
  store :: db
  trace :: "event list"

text \<open>
  The hosting service is a parameter of the model: from its state, the file and the
  resource type it answers with \<open>secure_url\<close> (\<open>Some\<close>) or fails (\<open>None\<close>, the
  rejected promise), and moves to a new state.
\<close>

type_synonym 'c uploader = "'c \<Rightarrow> media_file \<Rightarrow> string \<Rightarrow> string option \<times> 'c"

definition pool_query ::
  "statement \<Rightarrow> (db \<Rightarrow> (pg_error + 'r) \<times> db) \<Rightarrow> 'c world \<Rightarrow> (pg_error + 'r) \<times> 'c world" where
  "pool_query stmt run w =
     (case run (store w) of
        (result, d') \<Rightarrow> (result, w\<lparr>store := d', trace := trace w @ [PoolQuery stmt]\<rparr>))"

definition console_error :: "'c world \<Rightarrow> 'c world" where
  "console_error w = w\<lparr>trace := trace w @ [ConsoleError]\<rparr>"

text \<open>The response: \<open>res.status(code)\<close> and what \<open>json\<close> or \<open>send\<close> is given.\<close>

datatype body =
    NoBody
  | ErrorBody string
  | RequirementBody requirement
  | RequirementsBody "(requirement \<times> comment list) list"
  | CommentBody comment
  | TypeBody requirement_type
  | TypesBody "requirement_type list"

datatype response = Response (code: nat) (payload: body)

subsection \<open>uploadMediaToCloudinary\<close>

text \<open>
  The loop \<open>for (const file of files)\<close>, with the two arrays it pushes to. A failed
  upload is caught inside the loop: it is logged and the loop goes on.
\<close>

fun upload_loop ::
  "'c uploader \<Rightarrow> media_file list \<Rightarrow> string list \<Rightarrow> string list \<Rightarrow> 'c world \<Rightarrow>
   (string list \<times> string list) \<times> 'c world" where
  "upload_loop up [] uploadedImageUrls uploadedVideoUrls w =
     ((uploadedImageUrls, uploadedVideoUrls), w)"
| "upload_loop up (f # files) uploadedImageUrls uploadedVideoUrls w =
     (let resourceType = (if startsWith (mimetype f) ''image'' then ''image'' else ''video'')
      in case up (cloud w) f resourceType of
           (result, c') \<Rightarrow>
             let w' = w\<lparr>cloud := c', trace := trace w @ [UploaderUpload f resourceType]\<rparr>
             in (case result of
                   Some secure_url \<Rightarrow>
                     if resourceType = ''image''
                     then upload_loop up files (uploadedImageUrls @ [secure_url]) uploadedVideoUrls w'
                     else upload_loop up files uploadedImageUrls (uploadedVideoUrls @ [secure_url]) w'
                 | None \<Rightarrow>
                     upload_loop up files uploadedImageUrls uploadedVideoUrls (console_error w')))"

definition uploadMediaToCloudinary ::
  "'c uploader \<Rightarrow> media_file list \<Rightarrow> 'c world \<Rightarrow> (string list \<times> string list) \<times> 'c world" where
  "uploadMediaToCloudinary up files w = upload_loop up files [] [] w"

subsection \<open>The route handlers\<close>

text \<open>
  A handler is entered with what the middleware of its route has parsed: the fields
  of the JSON or multipart body and the files. A request that the middleware rejects
  (a body that is not well formed, a multipart field whose value is over multer's
  default limit of 1 MB) is answered by Express without the handler being entered: it
  is not a request of the handlers below.

  \<open>req.files || []\<close>.
\<close>

definition files_or_empty :: "media_file list option \<Rightarrow> media_file list" where
  "files_or_empty fs = (case fs of None \<Rightarrow> [] | Some files \<Rightarrow> files)"

definition internal_server_error :: response where
  "internal_server_error = Response 500 (ErrorBody ''Internal Server Error'')"

text \<open>
  \<^verbatim>\<open>GET /api/requirements\<close>: the loop that fetches the comments of each row; an error
  of a query leaves the loop for the handler's \<open>catch\<close>.
\<close>

fun fetch_comments ::
  "requirement list \<Rightarrow> 'c world \<Rightarrow> (pg_error + (requirement \<times> comment list) list) \<times> 'c world" where
  "fetch_comments [] w = (Inr [], w)"
| "fetch_comments (r # rs) w =
     (case pool_query SelectComments (select_comments (req_id r)) w of
        (Inl err, w') \<Rightarrow> (Inl err, w')
      | (Inr commentsRows, w') \<Rightarrow>
          (case fetch_comments rs w' of
             (Inl err, w'') \<Rightarrow> (Inl err, w'')
           | (Inr rest, w'') \<Rightarrow> (Inr ((r, commentsRows) # rest), w'')))"

definition listRequirements :: "'c world \<Rightarrow> response \<times> 'c world" where
  "listRequirements w =
     (case pool_query SelectRequirements select_requirements w of
        (Inl err, w') \<Rightarrow> (internal_server_error, console_error w')
      | (Inr rows, w') \<Rightarrow>
          (case fetch_comments rows w' of
             (Inl err, w'') \<Rightarrow> (internal_server_error, console_error w'')
           | (Inr withComments, w'') \<Rightarrow> (Response 200 (RequirementsBody withComments), w'')))"

text \<open>\<^verbatim>\<open>POST /api/requirements\<close>, with the fields of its multipart body.\<close>

record requirement_form =
  customer :: "string option"
  contact :: "string option"
  type :: "string option"
  details :: "string option"
  followUp :: "string option"

definition createRequirement ::
  "'c uploader \<Rightarrow> nat \<Rightarrow> requirement_form \<Rightarrow> media_file list option \<Rightarrow> 'c world \<Rightarrow>
   response \<times> 'c world" where
  "createRequirement up now form req_files w =
     (let files = files_or_empty req_files in
      if falsy (customer form) \<or> falsy (type form) \<or> falsy (details form)
      then (Response 400 (ErrorBody ''Customer, type, and details are required.''), w)
      else
        case uploadMediaToCloudinary up files w of
          ((images, videos), w1) \<Rightarrow>
            (case pool_query InsertRequirement
                    (insert_requirement now (customer form) (contact form) (type form)
                       (details form) (followUp form) images videos) w1 of
               (Inl err, w2) \<Rightarrow> (internal_server_error, console_error w2)
             | (Inr rows, w2) \<Rightarrow>
                 (Response 201 (case rows of [] \<Rightarrow> NoBody | r # _ \<Rightarrow> RequirementBody r), w2)))"

text \<open>\<^verbatim>\<open>PUT /api/requirements/:id/status\<close>\<close>

definition updateStatus :: "int \<Rightarrow> string option \<Rightarrow> 'c world \<Rightarrow> response \<times> 'c world" where
  "updateStatus i status w =
     (case pool_query UpdateStatus (update_status status i) w of
        (Inl err, w') \<Rightarrow> (internal_server_error, console_error w')
      | (Inr rows, w') \<Rightarrow>
          (case rows of
             [] \<Rightarrow> (Response 404 (ErrorBody ''Requirement not found.''), w')
           | r # _ \<Rightarrow> (Response 200 (RequirementBody r), w')))"

text \<open>\<^verbatim>\<open>PUT /api/requirements/:id\<close>\<close>

definition updateDetails ::
  "int \<Rightarrow> string option \<Rightarrow> string option \<Rightarrow> string option \<Rightarrow> string option \<Rightarrow> 'c world \<Rightarrow>
   response \<times> 'c world" where
  "updateDetails i customer' contact' type' details' w =
     (if falsy customer' \<or> falsy type' \<or> falsy details'
      then (Response 400 (ErrorBody ''Customer, type, and details are required.''), w)
      else
        case pool_query UpdateDetails (update_details customer' contact' type' details' i) w of
          (Inl err, w') \<Rightarrow> (internal_server_error, console_error w')
        | (Inr rows, w') \<Rightarrow>
            (case rows of
               [] \<Rightarrow> (Response 404 (ErrorBody ''Requirement not found.''), w')
             | r # _ \<Rightarrow> (Response 200 (RequirementBody r), w')))"

text \<open>\<^verbatim>\<open>DELETE /api/requirements/:id\<close>\<close>

definition deleteRequirement :: "int \<Rightarrow> 'c world \<Rightarrow> response \<times> 'c world" where
  "deleteRequirement i w =
     (case pool_query DeleteRequirement (delete_requirement i) w of
        (Inl err, w') \<Rightarrow> (internal_server_error, console_error w')
      | (Inr rows, w') \<Rightarrow>
          (case rows of
             [] \<Rightarrow> (Response 404 (ErrorBody ''Requirement not found.''), w')
           | r # _ \<Rightarrow> (Response 204 NoBody, w')))"

text \<open>\<^verbatim>\<open>POST /api/requirements/:id/comments\<close>\<close>

definition addComment ::
  "'c uploader \<Rightarrow> nat \<Rightarrow> int \<Rightarrow> string option \<Rightarrow> media_file list option \<Rightarrow> 'c world \<Rightarrow>
   response \<times> 'c world" where
  "addComment up now i txt req_files w =
     (let files = files_or_empty req_files in
      if falsy txt \<and> length files = 0
      then (Response 400 (ErrorBody ''Comment text or media is required.''), w)
      else
        case uploadMediaToCloudinary up files w of
          ((images, videos), w1) \<Rightarrow>
            (case pool_query InsertComment (insert_comment now i txt images videos) w1 of
               (Inl err, w2) \<Rightarrow> (internal_server_error, console_error w2)
             | (Inr rows, w2) \<Rightarrow>
                 (Response 201 (case rows of [] \<Rightarrow> NoBody | c # _ \<Rightarrow> CommentBody c), w2)))"

text \<open>\<^verbatim>\<open>GET /api/types\<close>\<close>

definition listTypes :: "'c world \<Rightarrow> response \<times> 'c world" where
  "listTypes w =
     (case pool_query SelectTypes select_types w of
        (Inl err, w') \<Rightarrow> (internal_server_error, console_error w')
      | (Inr rows, w') \<Rightarrow> (Response 200 (TypesBody rows), w'))"

text \<open>\<^verbatim>\<open>POST /api/types\<close>\<close>

definition createType :: "string option \<Rightarrow> 'c world \<Rightarrow> response \<times> 'c world" where
  "createType name w =
     (if falsy name then (Response 400 (ErrorBody ''Type name is required.''), w)
      else
        case pool_query InsertType (insert_type name) w of
          (Inl err, w') \<Rightarrow> (internal_server_error, console_error w')
        | (Inr rows, w') \<Rightarrow>
            (Response 201 (case rows of [] \<Rightarrow> NoBody | t # _ \<Rightarrow> TypeBody t), w'))"

text \<open>\<^verbatim>\<open>DELETE /api/types/:id\<close>\<close>

definition deleteType :: "int \<Rightarrow> 'c world \<Rightarrow> response \<times> 'c world" where
  "deleteType i w =
     (case pool_query DeleteType (delete_type i) w of
        (Inl err, w') \<Rightarrow> (internal_server_error, console_error w')
      | (Inr rows, w') \<Rightarrow>
          (case rows of
             [] \<Rightarrow> (Response 404 (ErrorBody ''Type not found.''), w')
           | t # _ \<Rightarrow> (Response 204 NoBody, w')))"

text \<open>The requests of the API, and the router that hands each to its handler.\<close>

datatype request =
    GetRequirements
  | PostRequirement requirement_form "media_file list option"
  | PutRequirementStatus int "string option"
  | PutRequirement int "string option" "string option" "string option" "string option"
  | DeleteRequirementById int
  | PostComment int "string option" "media_file list option"
  | GetTypes
  | PostType "string option"
  | DeleteTypeById int

fun app :: "'c uploader \<Rightarrow> nat \<Rightarrow> request \<Rightarrow> 'c world \<Rightarrow> response \<times> 'c world" where
  "app up now GetRequirements w = listRequirements w"
| "app up now (PostRequirement form files) w = createRequirement up now form files w"
| "app up now (PutRequirementStatus i status) w = updateStatus i status w"
| "app up now (PutRequirement i c ct t dt) w = updateDetails i c ct t dt w"
| "app up now (DeleteRequirementById i) w = deleteRequirement i w"
| "app up now (PostComment i txt files) w = addComment up now i txt files w"
| "app up now GetTypes w = listTypes w"
| "app up now (PostType name) w = createType name w"
| "app up now (DeleteTypeById i) w = deleteType i w"

text \<open>The server handling a sequence of requests, each at its time.\<close>

fun serve :: "'c uploader \<Rightarrow> (nat \<times> request) list \<Rightarrow> 'c world \<Rightarrow> 'c world" where
  "serve up [] w = w"
| "serve up ((now, rq) # rqs) w = serve up rqs (snd (app up now rq w))"

subsection \<open>The uploader's contract, in the specification's words\<close>

text \<open>
  The specification of the Media Uploader: each file is classified as \<open>image\<close> if its
  declared MIME type starts with \<open>image\<close>, else as \<open>video\<close>, and is submitted to the
  hosting service as that resource type. \<open>upload_attempts\<close> pairs each file of the
  input, in the input's order, with the service's answer to its submission.
\<close>

definition classify :: "media_file \<Rightarrow> string" where
  "classify f = (if startsWith (mimetype f) ''image'' then ''image'' else ''video'')"

fun upload_attempts ::
  "'c uploader \<Rightarrow> 'c \<Rightarrow> media_file list \<Rightarrow> (media_file \<times> string option) list" where
  "upload_attempts up c [] = []"
| "upload_attempts up c (f # fs) =
     (case up c f (classify f) of (answer, c') \<Rightarrow> (f, answer) # upload_attempts up c' fs)"

text \<open>The calls that one attempt leaves in the trace: the upload, and the log of its failure.\<close>

definition attempt_events :: "media_file \<times> string option \<Rightarrow> event list" where
  "attempt_events a =
     (case a of
        (f, None) \<Rightarrow> [UploaderUpload f (classify f), ConsoleError]
      | (f, Some url) \<Rightarrow> [UploaderUpload f (classify f)])"

subsection \<open>Predicates of the store and of its values\<close>

text \<open>A value that a VARCHAR(n) column stores as it is: NULL, or a text of at most \<open>n\<close> characters.\<close>

definition fits :: "nat \<Rightarrow> string option \<Rightarrow> bool" where
  "fits n v = (case v of None \<Rightarrow> True | Some s \<Rightarrow> length s \<le> n)"


text \<open>No requirement of the store has a NULL status.\<close>

definition every_requirement_has_status :: "db \<Rightarrow> bool" where
  "every_requirement_has_status d = list_all (\<lambda>r. req_status r \<noteq> None) (requirements d)"

text \<open>
  The schema as an invariant of the store. A SERIAL PRIMARY KEY column: its values are
  32-bit integers, all different, and all below the next value of its sequence, which
  starts at 1.
\<close>

definition serial_ok :: "int list \<Rightarrow> int \<Rightarrow> bool" where
  "serial_ok ids seq = (list_all (\<lambda>i. is_int4 i \<and> i < seq) ids \<and> distinct ids \<and> 1 \<le> seq)"

text \<open>The VARCHAR columns of a requirement hold texts of their widths.\<close>

definition requirement_widths_ok :: "requirement \<Rightarrow> bool" where
  "requirement_widths_ok r =
     (length (req_customer r) \<le> 255 \<and> fits 255 (req_contact r)
      \<and> length (req_type r) \<le> 255 \<and> fits 50 (req_status r))"

text \<open>
  The three tables with their keys, the width and the uniqueness of a type's name, and
  the foreign key of a comment.
\<close>

definition schema_ok :: "db \<Rightarrow> bool" where
  "schema_ok d =
     (serial_ok (map rt_id (requirement_types d)) (requirement_types_id_seq d)
      \<and> list_all (\<lambda>t. length (rt_name t) \<le> 255) (requirement_types d)
      \<and> distinct (map rt_name (requirement_types d))
      \<and> serial_ok (map req_id (requirements d)) (requirements_id_seq d)
      \<and> list_all requirement_widths_ok (requirements d)
      \<and> serial_ok (map com_id (comments d)) (comments_id_seq d)
      \<and> list_all (\<lambda>c. com_requirement_id c \<in> set (map req_id (requirements d))) (comments d))"

subsection \<open>Example requests and worlds\<close>

text \<open>
  The store after \<open>initializeDb\<close> on a fresh database of the collation C, and a
  hosting service that counts its calls, rejects an empty file and answers any other
  with a URL made of the resource type and the content.
\<close>

definition fresh_db :: db where
  "fresh_db = \<lparr>requirement_types = [], requirement_types_id_seq = 1,
               requirements = [], requirements_id_seq = 1,
               comments = [], comments_id_seq = 1, datcollate = (\<lambda>s. s)\<rparr>"

definition demo_uploader :: "nat uploader" where
  "demo_uploader n f resource_type =
     (if buffer f = [] then (None, n + 1)
      else (Some (''https://res.cloudinary.com/'' @ resource_type @ ''/'' @ buffer f), n + 1))"

definition fresh_world :: "nat world" where
  "fresh_world = \<lparr>cloud = 0, store = fresh_db, trace = []\<rparr>"

definition png :: media_file where
  "png = \<lparr>mimetype = ''image/png'', buffer = ''P''\<rparr>"

definition mp4 :: media_file where
  "mp4 = \<lparr>mimetype = ''video/mp4'', buffer = ''M''\<rparr>"

definition empty_jpeg :: media_file where
  "empty_jpeg = \<lparr>mimetype = ''image/jpeg'', buffer = []\<rparr>"

definition pdf :: media_file where
  "pdf = \<lparr>mimetype = ''application/pdf'', buffer = ''D''\<rparr>"

text \<open>
  The requirement of the specification's scenario (customer Acme, type Bug, details X,
  no media), as created at time 10 on the fresh store, with one comment made at time 11.
\<close>

definition acme :: requirement where
  "acme = \<lparr>req_id = 1, req_customer = ''Acme'', req_contact = None, req_type = ''Bug'',
            req_details = ''X'', req_follow_up = None, req_status = Some ''Pending'',
            req_images = [], req_videos = [], req_created_at = 10\<rparr>"

definition acme_comment :: comment where
  "acme_comment = \<lparr>com_id = 1, com_requirement_id = 1, com_text = Some ''called back'',
                    com_images = [], com_videos = [], com_created_at = 11\<rparr>"

definition acme_db :: db where
  "acme_db = \<lparr>requirement_types = [\<lparr>rt_id = 1, rt_name = ''Bug''\<rparr>],
              requirement_types_id_seq = 2,
              requirements = [acme], requirements_id_seq = 2,
              comments = [acme_comment], comments_id_seq = 2, datcollate = (\<lambda>s. s)\<rparr>"

definition acme_world :: "nat world" where
  "acme_world = \<lparr>cloud = 0, store = acme_db, trace = []\<rparr>"

definition acme_form :: requirement_form where
  "acme_form = \<lparr>customer = Some ''Acme'', contact = None, type = Some ''Bug'',
                 details = Some ''X'', followUp = None\<rparr>"

text \<open>A store with two requirements, three comments and two types.\<close>

definition globex :: requirement where
  "globex = \<lparr>req_id = 2, req_customer = ''Globex'', req_contact = Some ''555'', req_type = ''Api'',
            req_details = ''Y'', req_follow_up = None, req_status = Some ''Resolved'',
            req_images = [''https://res.cloudinary.com/image/P''], req_videos = [], req_created_at = 20\<rparr>"

definition two_db :: db where
  "two_db = \<lparr>requirement_types = [\<lparr>rt_id = 1, rt_name = ''Bug''\<rparr>, \<lparr>rt_id = 2, rt_name = ''Api''\<rparr>],
              requirement_types_id_seq = 3,
              requirements = [acme, globex], requirements_id_seq = 3,
              comments = [acme_comment,
                          \<lparr>com_id = 2, com_requirement_id = 2, com_text = None,
                            com_images = [], com_videos = [''https://res.cloudinary.com/video/M''],
                            com_created_at = 25\<rparr>,
                          \<lparr>com_id = 3, com_requirement_id = 1, com_text = Some ''done'',
                            com_images = [], com_videos = [], com_created_at = 30\<rparr>],
              comments_id_seq = 4, datcollate = (\<lambda>s. s)\<rparr>"

definition two_world :: "nat world" where
  "two_world = \<lparr>cloud = 0, store = two_db, trace = []\<rparr>"

text \<open>
  A collation that, as en_US does, orders letters without regard to their case (the key
  of a text is the text in lower case), and a database of that collation with the types
  \<open>Bug\<close> and \<open>apple\<close>.
\<close>

definition lower :: "char \<Rightarrow> char" where
  "lower c =
     (case map_of (zip ''ABCDEFGHIJKLMNOPQRSTUVWXYZ'' ''abcdefghijklmnopqrstuvwxyz'') c of
        Some l \<Rightarrow> l
      | None \<Rightarrow> c)"

definition case_folding :: "string \<Rightarrow> string" where
  "case_folding s = map lower s"

definition folding_db :: db where
  "folding_db = \<lparr>requirement_types = [\<lparr>rt_id = 1, rt_name = ''Bug''\<rparr>,
                                        \<lparr>rt_id = 2, rt_name = ''apple''\<rparr>],
                 requirement_types_id_seq = 3,
                 requirements = [], requirements_id_seq = 1,
                 comments = [], comments_id_seq = 1, datcollate = case_folding\<rparr>"

definition folding_world :: "nat world" where
  "folding_world = \<lparr>cloud = 0, store = folding_db, trace = []\<rparr>"

text \<open>
  The store of the scenario once the sequences of the requirements and of the comments
  have given their last value, 2147483647.
\<close>

definition full_db :: db where
  "full_db = acme_db\<lparr>requirements_id_seq := 2147483648, comments_id_seq := 2147483648\<rparr>"

definition full_world :: "nat world" where
  "full_world = \<lparr>cloud = 0, store = full_db, trace = []\<rparr>"

section \<open>Properties\<close>

subsection \<open>The values that the store takes\<close>

lemma pg_text_ok: "text_ok v \<Longrightarrow> pg_text v = Inr v"
  by (simp add: pg_text_def)

lemma pg_text_result: "pg_text v = Inr v' \<Longrightarrow> v' = v \<and> text_ok v"
  by (simp add: pg_text_def split: if_splits)

lemma text_ok_falsy: "falsy v \<Longrightarrow> text_ok v"
  by (cases v) (simp_all add: falsy_def text_ok_def)

lemma varchar_fits: "fits n v \<Longrightarrow> text_ok v \<Longrightarrow> varchar n v = Inr v"
  by (cases v) (simp_all add: fits_def varchar_def pg_text_ok)

lemma int4_ok: "is_int4 i \<Longrightarrow> int4 i = Inr i"
  by (simp add: int4_def)

lemma nextval_ok: "s \<le> 2147483647 \<Longrightarrow> nextval s = Inr s"
  by (simp add: nextval_def)


lemma varchar_Some: "varchar n (Some s) = Inr st \<Longrightarrow> \<exists>y. st = Some y"
  by (auto simp: varchar_def pg_text_def split: if_splits)

lemma varchar_result: "varchar n v = Inr v' \<Longrightarrow> fits n v'"
  by (cases v) (auto simp: varchar_def pg_text_def fits_def split: if_splits)

lemma fits_Some: "fits n (Some s) \<longleftrightarrow> length s \<le> n"
  by (simp add: fits_def)

subsection \<open>The uploader\<close>

lemma upload_loop_urls:
  "fst (upload_loop up files imgs vids w) =
     (imgs @ [url. (f, Some url) \<leftarrow> upload_attempts up (cloud w) files,
                   startsWith (mimetype f) ''image''],
      vids @ [url. (f, Some url) \<leftarrow> upload_attempts up (cloud w) files,
                   \<not> startsWith (mimetype f) ''image''])"
proof (induction files arbitrary: imgs vids w)
  case Nil
  show ?case by simp
next
  case (Cons f files)
  show ?case
    by (simp add: Cons.IH classify_def console_error_def split: prod.split option.split)
qed

lemma upload_loop_store: "store (snd (upload_loop up files imgs vids w)) = store w"
proof (induction files arbitrary: imgs vids w)
  case Nil
  show ?case by simp
next
  case (Cons f files)
  show ?case
    by (simp add: Cons.IH console_error_def Let_def split: prod.split option.split)
qed

lemma upload_loop_Cons:
  "upload_loop up (f # files) imgs vids w =
     (case up (cloud w) f (classify f) of
        (answer, c') \<Rightarrow>
          upload_loop up files
            (case answer of Some url \<Rightarrow> if classify f = ''image'' then imgs @ [url] else imgs
                          | None \<Rightarrow> imgs)
            (case answer of Some url \<Rightarrow> if classify f = ''image'' then vids else vids @ [url]
                          | None \<Rightarrow> vids)
            (w\<lparr>cloud := c', trace := trace w @ attempt_events (f, answer)\<rparr>))"
  by (simp add: classify_def attempt_events_def console_error_def Let_def
        split: prod.split option.split)

lemma upload_loop_trace:
  "trace (snd (upload_loop up files imgs vids w)) =
     trace w @ concat (map attempt_events (upload_attempts up (cloud w) files))"
proof (induction files arbitrary: imgs vids w)
  case Nil
  show ?case by simp
next
  case (Cons f files)
  show ?case
    by (simp only: upload_loop_Cons upload_attempts.simps Cons.IH split: prod.split)
       simp
qed

lemma upload_attempts_files: "map fst (upload_attempts up c files) = files"
  by (induction files arbitrary: c) (simp_all split: prod.split)

text \<open>
  C4: for every input sequence of files, each file is submitted once, in the input's
  order, as an image exactly when its MIME type starts with \<open>image\<close> and as a video
  otherwise; the returned images are the URLs of the answered image uploads and the
  returned videos those of the answered video uploads, each in the input's order; a
  file whose upload fails contributes no URL, its failure is logged, the files after
  it are still submitted, and the function returns its two sequences all the same.
  The store is not touched.
\<close>

theorem uploadMediaToCloudinary_partitions:
  "fst (uploadMediaToCloudinary up files w) =
     ([url. (f, Some url) \<leftarrow> upload_attempts up (cloud w) files,
            startsWith (mimetype f) ''image''],
      [url. (f, Some url) \<leftarrow> upload_attempts up (cloud w) files,
            \<not> startsWith (mimetype f) ''image''])
   \<and> map fst (upload_attempts up (cloud w) files) = files
   \<and> trace (snd (uploadMediaToCloudinary up files w)) =
       trace w @ concat (map attempt_events (upload_attempts up (cloud w) files))
   \<and> store (snd (uploadMediaToCloudinary up files w)) = store w"
  by (simp add: uploadMediaToCloudinary_def upload_loop_urls upload_loop_store
        upload_loop_trace upload_attempts_files)

theorem uploadMediaToCloudinary_partitions_witness:
  "fst (uploadMediaToCloudinary demo_uploader [png, mp4, empty_jpeg, pdf, png] fresh_world) =
     ([''https://res.cloudinary.com/image/P'', ''https://res.cloudinary.com/image/P''],
      [''https://res.cloudinary.com/video/M'', ''https://res.cloudinary.com/video/D''])
   \<and> trace (snd (uploadMediaToCloudinary demo_uploader [png, mp4, empty_jpeg, pdf, png]
                    fresh_world)) =
       [UploaderUpload png ''image'', UploaderUpload mp4 ''video'',
        UploaderUpload empty_jpeg ''image'', ConsoleError,
        UploaderUpload pdf ''video'', UploaderUpload png ''image'']"
  using uploadMediaToCloudinary_partitions
          [of demo_uploader "[png, mp4, empty_jpeg, pdf, png]" fresh_world]
  by (simp add: demo_uploader_def fresh_world_def png_def mp4_def empty_jpeg_def pdf_def
        classify_def startsWith_def attempt_events_def)

subsection \<open>Validation\<close>

text \<open>
  C6: for every createRequirement request in which customer, type or details is
  missing (absent or empty), the response is 400 and the world is returned as it was:
  no row is persisted, and the trace holds no call of the store or of the uploader,
  whatever the files and the hosting service.
\<close>

theorem createRequirement_missing_field:
  "falsy (customer form) \<or> falsy (type form) \<or> falsy (details form) \<Longrightarrow>
   createRequirement up now form files w =
     (Response 400 (ErrorBody ''Customer, type, and details are required.''), w)"
  by (simp add: createRequirement_def)

theorem createRequirement_missing_field_witness:
  "falsy (type (acme_form\<lparr>type := None\<rparr>))
   \<and> createRequirement demo_uploader 10 (acme_form\<lparr>type := None\<rparr>) (Some [png]) fresh_world =
       (Response 400 (ErrorBody ''Customer, type, and details are required.''), fresh_world)"
  using createRequirement_missing_field
          [of "acme_form\<lparr>type := None\<rparr>" demo_uploader 10 "Some [png]" fresh_world]
  by (simp add: falsy_def)

subsection \<open>Deleting a requirement\<close>

lemma deleteRequirement_rejected:
  "deleteRequirement i w =
     (internal_server_error,
      w\<lparr>trace := trace w @ [PoolQuery DeleteRequirement, ConsoleError]\<rparr>)"
  by (simp add: deleteRequirement_def pool_query_def delete_requirement_def console_error_def)

text \<open>
  C1 (the code at the failing input): the request to delete the existing requirement 1
  is answered with 500, and the requirement and its comment are still in the store.
\<close>

theorem deleteRequirement_existing_is_500:
  "code (fst (deleteRequirement 1 acme_world)) = 500
   \<and> requirements (store (snd (deleteRequirement 1 acme_world))) = [acme]
   \<and> comments (store (snd (deleteRequirement 1 acme_world))) = [acme_comment]
   \<and> req_id acme = 1"
  by (simp add: deleteRequirement_rejected internal_server_error_def acme_world_def
        acme_db_def acme_def)

text \<open>
  The handler of \<^verbatim>\<open>DELETE /api/types/:id\<close>, whose statement is written with
  RETURNING, does for a type what the handler above is written to do for a
  requirement: 204 and the row removed for an id that exists, 404 for one that does not.
\<close>

lemma deleteType_existing_or_not:
  assumes "is_int4 i"
  shows "(i \<in> rt_id ` set (requirement_types (store w)) \<longrightarrow>
            fst (deleteType i w) = Response 204 NoBody)
       \<and> (i \<notin> rt_id ` set (requirement_types (store w)) \<longrightarrow>
            fst (deleteType i w) = Response 404 (ErrorBody ''Type not found.''))
       \<and> requirement_types (store (snd (deleteType i w))) =
           filter (\<lambda>t. rt_id t \<noteq> i) (requirement_types (store w))"
proof (cases "filter (\<lambda>t. rt_id t = i) (requirement_types (store w))")
  case Nil
  then have "i \<notin> rt_id ` set (requirement_types (store w))"
    by (auto simp: filter_empty_conv)
  with assms Nil show ?thesis
    by (simp add: deleteType_def pool_query_def delete_type_def int4_ok)
next
  case (Cons t ts)
  then have "t \<in> set (filter (\<lambda>t. rt_id t = i) (requirement_types (store w)))"
    by simp
  then have "i \<in> rt_id ` set (requirement_types (store w))"
    by auto
  with assms Cons show ?thesis
    by (simp add: deleteType_def pool_query_def delete_type_def int4_ok)
qed

subsection \<open>Listing\<close>

lemma fetch_comments_rows:
  "fetch_comments rows w =
     (Inr (map (\<lambda>r. (r, sort_key com_created_at
                         (filter (\<lambda>c. com_requirement_id c = req_id r) (comments (store w)))))
             rows),
      w\<lparr>trace := trace w @ replicate (length rows) (PoolQuery SelectComments)\<rparr>)"
proof (induction rows arbitrary: w)
  case Nil
  show ?case by simp
next
  case (Cons r rows)
  show ?case
    by (simp add: Cons.IH pool_query_def select_comments_def replicate_app_Cons_same)
qed

lemma listRequirements_eq:
  "listRequirements w =
     (Response 200 (RequirementsBody
        (map (\<lambda>r. (r, sort_key com_created_at
                         (filter (\<lambda>c. com_requirement_id c = req_id r) (comments (store w)))))
             (rev (sort_key req_created_at (requirements (store w)))))),
      w\<lparr>trace := trace w @ PoolQuery SelectRequirements #
                replicate (length (requirements (store w))) (PoolQuery SelectComments)\<rparr>)"
  by (simp add: listRequirements_def pool_query_def select_requirements_def fetch_comments_rows)

lemma listTypes_eq:
  "listTypes w =
     (Response 200 (TypesBody (sort_key (\<lambda>t. datcollate (store w) (rt_name t))
                                (requirement_types (store w)))),
      w\<lparr>trace := trace w @ [PoolQuery SelectTypes]\<rparr>)"
  by (simp add: listTypes_def pool_query_def select_types_def)

text \<open>
  C9: listRequirements always answers 200 with all the requirements of the store, ordered
  by \<open>created_at\<close> from the newest to the oldest, each with exactly its own comments
  ordered by \<open>created_at\<close> from the oldest to the newest; listTypes always answers
  200 with all the requirement types, ordered by name ascending in the order of the
  database's collation, whatever that collation is (the keys that it gives the names
  ascend). Neither changes the store.
\<close>

theorem lists_are_ordered:
  "(\<exists>rs. fst (listRequirements w) = Response 200 (RequirementsBody rs)
        \<and> mset (map fst rs) = mset (requirements (store w))
        \<and> sorted (rev (map (\<lambda>(r, cs). req_created_at r) rs))
        \<and> (\<forall>(r, cs) \<in> set rs.
              mset cs = filter_mset (\<lambda>c. com_requirement_id c = req_id r)
                          (mset (comments (store w)))
              \<and> sorted (map com_created_at cs)))
   \<and> (\<exists>ts. fst (listTypes w) = Response 200 (TypesBody ts)
        \<and> mset ts = mset (requirement_types (store w))
        \<and> sorted (map (\<lambda>t. datcollate (store w) (rt_name t)) ts))
   \<and> store (snd (listRequirements w)) = store w
   \<and> store (snd (listTypes w)) = store w"
proof -
  define attach where
    "attach = (\<lambda>r::requirement. (r, sort_key com_created_at
                 (filter (\<lambda>c. com_requirement_id c = req_id r) (comments (store w)))))"
  define rs where "rs = map attach (rev (sort_key req_created_at (requirements (store w))))"
  have fst_attach: "fst \<circ> attach = (\<lambda>r. r)"
    by (simp add: attach_def fun_eq_iff)
  have r1: "fst (listRequirements w) = Response 200 (RequirementsBody rs)"
    by (simp add: listRequirements_eq rs_def attach_def)
  have "map fst rs = rev (sort_key req_created_at (requirements (store w)))"
    by (simp add: rs_def fst_attach)
  then have r2: "mset (map fst rs) = mset (requirements (store w))"
    by simp
  have "(\<lambda>(r, cs). req_created_at r) \<circ> attach = req_created_at"
    by (simp add: attach_def fun_eq_iff)
  then have "rev (map (\<lambda>(r, cs). req_created_at r) rs) =
      map req_created_at (sort_key req_created_at (requirements (store w)))"
    by (simp add: rs_def rev_map)
  then have r3: "sorted (rev (map (\<lambda>(r, cs). req_created_at r) rs))"
    by simp
  have r4: "\<forall>(r, cs) \<in> set rs.
      mset cs = filter_mset (\<lambda>c. com_requirement_id c = req_id r) (mset (comments (store w)))
      \<and> sorted (map com_created_at cs)"
    by (auto simp: rs_def attach_def)
  have t: "fst (listTypes w) =
      Response 200 (TypesBody (sort_key (\<lambda>t. datcollate (store w) (rt_name t))
                                 (requirement_types (store w))))"
    by (simp add: listTypes_eq)
  have s: "store (snd (listRequirements w)) = store w" "store (snd (listTypes w)) = store w"
    by (simp_all add: listRequirements_eq listTypes_eq)
  from r1 r2 r3 r4 have "\<exists>rs. fst (listRequirements w) = Response 200 (RequirementsBody rs)
        \<and> mset (map fst rs) = mset (requirements (store w))
        \<and> sorted (rev (map (\<lambda>(r, cs). req_created_at r) rs))
        \<and> (\<forall>(r, cs) \<in> set rs.
              mset cs = filter_mset (\<lambda>c. com_requirement_id c = req_id r)
                          (mset (comments (store w)))
              \<and> sorted (map com_created_at cs))"
    by blast
  moreover from t have "\<exists>ts. fst (listTypes w) = Response 200 (TypesBody ts)
        \<and> mset ts = mset (requirement_types (store w))
        \<and> sorted (map (\<lambda>t. datcollate (store w) (rt_name t)) ts)"
    by simp
  ultimately show ?thesis
    using s by blast
qed

theorem lists_are_ordered_witness:
  "(\<exists>rs. fst (listRequirements two_world) = Response 200 (RequirementsBody rs)
        \<and> map (\<lambda>(r, cs). (req_id r, map com_id cs)) rs = [(2, [2]), (1, [1, 3])])
   \<and> (\<exists>ts. fst (listTypes two_world) = Response 200 (TypesBody ts)
        \<and> map rt_name ts = [''Api'', ''Bug''])
   \<and> (\<exists>ts. fst (listTypes folding_world) = Response 200 (TypesBody ts)
        \<and> map rt_name ts = [''apple'', ''Bug''])"
proof -
  have a: "fst (listRequirements two_world) = Response 200 (RequirementsBody
      [(globex, [comments two_db ! 1]), (acme, [acme_comment, comments two_db ! 2])])"
    by (simp add: listRequirements_eq two_world_def two_db_def acme_def globex_def acme_comment_def)
  have b: "fst (listTypes two_world) = Response 200 (TypesBody
      [\<lparr>rt_id = 2, rt_name = ''Api''\<rparr>, \<lparr>rt_id = 1, rt_name = ''Bug''\<rparr>])"
    by (simp add: listTypes_eq two_world_def two_db_def)
  have c: "fst (listTypes folding_world) = Response 200 (TypesBody
      [\<lparr>rt_id = 2, rt_name = ''apple''\<rparr>, \<lparr>rt_id = 1, rt_name = ''Bug''\<rparr>])"
    by (simp add: listTypes_eq folding_world_def folding_db_def case_folding_def lower_def)
  show ?thesis
    using lists_are_ordered [of two_world] lists_are_ordered [of folding_world] a b c
    by (simp add: two_db_def acme_def globex_def acme_comment_def)
qed

subsection \<open>Updating the status\<close>

lemma set_status_absent:
  "i \<notin> req_id ` set rows \<Longrightarrow>
   map (\<lambda>r. if req_id r = i then r\<lparr>req_status := st\<rparr> else r) rows = rows
   \<and> filter (\<lambda>r. req_id r = i) rows = []"
  by (induction rows) auto

lemma filter_set_status:
  "filter (\<lambda>r. req_id r = i) (map (\<lambda>r. if req_id r = i then r\<lparr>req_status := st\<rparr> else r) rows) =
   map (\<lambda>r. r\<lparr>req_status := st\<rparr>) (filter (\<lambda>r. req_id r = i) rows)"
  by (induction rows) auto

lemma filter_present:
  "i \<in> req_id ` set rows \<Longrightarrow>
   \<exists>r rest. filter (\<lambda>r. req_id r = i) rows = r # rest \<and> r \<in> set rows \<and> req_id r = i"
  by (induction rows) auto

text \<open>
  C3 (as amended): for every requirement id of the id column's 32-bit integer type and
  every status that the status column takes as it is (absent, or a text of at most 50
  characters that holds no U+0000): on an id that no requirement has, updateStatus
  answers 404 and the
  store is as before; on an id that a requirement has, it answers 200 with that
  requirement, in which only the status is replaced, and in the store the status of
  that requirement is the new one, every other field of it, every other requirement,
  the other tables and the sequences being as before.
\<close>

theorem updateStatus_changes_only_status:
  assumes "is_int4 i" and "fits 50 status" and "text_ok status"
  shows "(i \<notin> req_id ` set (requirements (store w)) \<longrightarrow>
            updateStatus i status w =
              (Response 404 (ErrorBody ''Requirement not found.''),
               w\<lparr>trace := trace w @ [PoolQuery UpdateStatus]\<rparr>))
       \<and> (i \<in> req_id ` set (requirements (store w)) \<longrightarrow>
            (\<exists>r \<in> set (requirements (store w)). req_id r = i
                \<and> fst (updateStatus i status w) =
                    Response 200 (RequirementBody (r\<lparr>req_status := status\<rparr>)))
            \<and> snd (updateStatus i status w) =
                w\<lparr>store := (store w)\<lparr>requirements :=
                              map (\<lambda>r. if req_id r = i then r\<lparr>req_status := status\<rparr> else r)
                                (requirements (store w))\<rparr>,
                  trace := trace w @ [PoolQuery UpdateStatus]\<rparr>)"
proof -
  let ?rows = "requirements (store w)"
  let ?rows' = "map (\<lambda>r. if req_id r = i then r\<lparr>req_status := status\<rparr> else r) ?rows"
  have q: "pool_query UpdateStatus (update_status status i) w =
      (Inr (map (\<lambda>r. r\<lparr>req_status := status\<rparr>) (filter (\<lambda>r. req_id r = i) ?rows)),
       w\<lparr>store := (store w)\<lparr>requirements := ?rows'\<rparr>,
         trace := trace w @ [PoolQuery UpdateStatus]\<rparr>)"
    using assms
    by (simp add: pool_query_def update_status_def int4_ok varchar_fits filter_set_status)
  have absent: "updateStatus i status w =
      (Response 404 (ErrorBody ''Requirement not found.''),
       w\<lparr>trace := trace w @ [PoolQuery UpdateStatus]\<rparr>)"
    if "i \<notin> req_id ` set ?rows"
    using set_status_absent [OF that, of status]
    by (simp add: updateStatus_def q)
  have present: "(\<exists>r \<in> set ?rows. req_id r = i
        \<and> fst (updateStatus i status w) = Response 200 (RequirementBody (r\<lparr>req_status := status\<rparr>)))
      \<and> snd (updateStatus i status w) =
          w\<lparr>store := (store w)\<lparr>requirements := ?rows'\<rparr>,
            trace := trace w @ [PoolQuery UpdateStatus]\<rparr>"
    if "i \<in> req_id ` set ?rows"
  proof -
    from filter_present [OF that] obtain r rest where
      r: "filter (\<lambda>r. req_id r = i) ?rows = r # rest" "r \<in> set ?rows" "req_id r = i"
      by blast
    then show ?thesis
      by (auto simp: updateStatus_def q)
  qed
  from absent present show ?thesis by blast
qed

theorem updateStatus_changes_only_status_witness:
  "is_int4 1 \<and> is_int4 7 \<and> fits 50 (Some ''Resolved'') \<and> text_ok (Some ''Resolved'')
   \<and> updateStatus 7 (Some ''Resolved'') acme_world =
       (Response 404 (ErrorBody ''Requirement not found.''),
        acme_world\<lparr>trace := [PoolQuery UpdateStatus]\<rparr>)
   \<and> fst (updateStatus 1 (Some ''Resolved'') acme_world) =
       Response 200 (RequirementBody (acme\<lparr>req_status := Some ''Resolved''\<rparr>))
   \<and> store (snd (updateStatus 1 (Some ''Resolved'') acme_world)) =
       acme_db\<lparr>requirements := [acme\<lparr>req_status := Some ''Resolved''\<rparr>]\<rparr>"
proof -
  have h: "is_int4 1" "is_int4 7" "fits 50 (Some ''Resolved'')" "text_ok (Some ''Resolved'')"
    by (simp_all add: is_int4_def fits_def text_ok_def)
  show ?thesis
    using h updateStatus_changes_only_status [OF h(2) h(3) h(4), of acme_world]
      updateStatus_changes_only_status [OF h(1) h(3) h(4), of acme_world]
    by (simp add: acme_world_def acme_db_def acme_def)
qed

text \<open>
  C3 as stated fails: on the existing requirement 1, a status of 51 characters does not
  fit the column VARCHAR(50); the update is rejected, the answer is 500 and not the
  updated requirement. So is a status of the one character U+0000, which PostgreSQL
  does not take as a text. And the id 2147483648, which no requirement has, is not a
  32-bit integer: the store rejects it, and the answer is 500 and not 404.
\<close>

theorem updateStatus_rejected_counterexample:
  "1 \<in> req_id ` set (requirements (store acme_world))
   \<and> fst (updateStatus 1 (Some (replicate 51 CHR ''x'')) acme_world) =
       Response 500 (ErrorBody ''Internal Server Error'')
   \<and> store (snd (updateStatus 1 (Some (replicate 51 CHR ''x'')) acme_world)) = store acme_world
   \<and> fits 50 (Some [CHR 0x00])
   \<and> fst (updateStatus 1 (Some [CHR 0x00]) acme_world) =
       Response 500 (ErrorBody ''Internal Server Error'')
   \<and> store (snd (updateStatus 1 (Some [CHR 0x00]) acme_world)) = store acme_world
   \<and> 2147483648 \<notin> req_id ` set (requirements (store acme_world))
   \<and> fst (updateStatus 2147483648 (Some ''Resolved'') acme_world) =
       Response 500 (ErrorBody ''Internal Server Error'')"
  by (simp add: updateStatus_def pool_query_def update_status_def int4_def is_int4_def
        varchar_def pg_text_def text_ok_def fits_def internal_server_error_def
        console_error_def acme_world_def acme_db_def acme_def)

subsection \<open>The status of a requirement\<close>

lemma insert_requirement_cases:
  "insert_requirement now c ct t dt fu im vi d = (res, d') \<Longrightarrow>
     ((\<exists>e. res = Inl e) \<and> requirements d' = requirements d)
   \<or> (\<exists>r. res = Inr [r] \<and> requirements d' = requirements d @ [r]
           \<and> req_status r = Some ''Pending'' \<and> req_images r = im \<and> req_videos r = vi)"
  by (auto simp: insert_requirement_def Let_def split: sum.splits option.splits)

lemma uploadMediaToCloudinary_store:
  "uploadMediaToCloudinary up files w = (urls, w1) \<Longrightarrow> store w1 = store w"
  using upload_loop_store [of up files "[]" "[]" w]
  by (simp add: uploadMediaToCloudinary_def)

lemma createRequirement_cases:
  "createRequirement up now form files w = (res, w') \<Longrightarrow>
     ((\<forall>r. res \<noteq> Response 201 (RequirementBody r))
        \<and> requirements (store w') = requirements (store w))
   \<or> (\<exists>r. res = Response 201 (RequirementBody r)
           \<and> requirements (store w') = requirements (store w) @ [r]
           \<and> req_status r = Some ''Pending'')"
proof -
  assume a: "createRequirement up now form files w = (res, w')"
  show ?thesis
  proof (cases "falsy (customer form) \<or> falsy (type form) \<or> falsy (details form)")
    case True
    with a show ?thesis by (auto simp: createRequirement_def)
  next
    case False
    obtain images videos w1 where
      u: "uploadMediaToCloudinary up (files_or_empty files) w = ((images, videos), w1)"
      by (metis surj_pair)
    obtain r d' where
      i: "insert_requirement now (customer form) (contact form) (type form) (details form)
            (followUp form) images videos (store w1) = (r, d')"
      by (metis surj_pair)
    from uploadMediaToCloudinary_store [OF u] have s: "store w1 = store w" .
    from insert_requirement_cases [OF i] a False u i s show ?thesis
      by (auto simp: createRequirement_def pool_query_def console_error_def
            internal_server_error_def)
  qed
qed

lemma updateStatus_requirements:
  "requirements (store (snd (updateStatus i status w))) = requirements (store w)
   \<or> (\<exists>st. varchar 50 status = Inr st \<and>
         requirements (store (snd (updateStatus i status w))) =
           map (\<lambda>r. if req_id r = i then r\<lparr>req_status := st\<rparr> else r) (requirements (store w)))"
  by (auto simp: updateStatus_def pool_query_def update_status_def int4_def console_error_def Let_def
        split: sum.splits list.splits)

lemma updateDetails_requirements:
  "map req_status (requirements (store (snd (updateDetails i c ct t dt w)))) =
   map req_status (requirements (store w))"
  by (auto simp: updateDetails_def pool_query_def update_details_def int4_def console_error_def
        Let_def comp_def split: sum.splits list.splits option.splits intro!: map_cong)

lemma addComment_requirements:
  "requirements (store (snd (addComment up now i txt files w))) = requirements (store w)"
proof -
  obtain images videos w1 where
    u: "uploadMediaToCloudinary up (files_or_empty files) w = ((images, videos), w1)"
    by (metis surj_pair)
  from uploadMediaToCloudinary_store [OF u] have s: "store w1 = store w" .
  with u show ?thesis
    by (auto simp: addComment_def pool_query_def insert_comment_def console_error_def Let_def
          split: sum.splits list.splits)
qed

lemma createType_requirements:
  "requirements (store (snd (createType name w))) = requirements (store w)"
  by (auto simp: createType_def pool_query_def insert_type_def console_error_def Let_def
        split: sum.splits list.splits option.splits)

lemma deleteType_requirements:
  "requirements (store (snd (deleteType i w))) = requirements (store w)"
  by (auto simp: deleteType_def pool_query_def delete_type_def console_error_def Let_def
        split: sum.splits list.splits)

lemma has_status_map: "every_requirement_has_status d \<longleftrightarrow> None \<notin> set (map req_status (requirements d))"
  unfolding every_requirement_has_status_def list_all_iff set_map
  by (metis imageE imageI)

text \<open>
  C2 (as amended): a requirement that createRequirement creates has the status
  \<open>Pending\<close>, and if every requirement of the store has a status before a request,
  every one has a status after it, for every request of the API except an updateStatus
  whose status is absent or null (which the counterexample below shows to store a NULL
  status).
\<close>

theorem status_kept_unless_set_to_null:
  "(every_requirement_has_status (store w) \<and> (\<forall>i. rq \<noteq> PutRequirementStatus i None)
      \<longrightarrow> every_requirement_has_status (store (snd (app up now rq w))))
   \<and> (\<forall>r. fst (createRequirement up now form files w) = Response 201 (RequirementBody r)
      \<longrightarrow> req_status r = Some ''Pending'')"
proof -
  have inv: "every_requirement_has_status (store (snd (app up now rq w)))"
    if h: "every_requirement_has_status (store w)" and n: "\<forall>i. rq \<noteq> PutRequirementStatus i None"
  proof (cases rq)
    case GetRequirements
    with h show ?thesis by (simp add: listRequirements_eq every_requirement_has_status_def)
  next
    case (PostRequirement f fs)
    obtain res w' where c: "createRequirement up now f fs w = (res, w')"
      by (metis surj_pair)
    from createRequirement_cases [OF c] h c PostRequirement show ?thesis
      by (auto simp: every_requirement_has_status_def)
  next
    case (PutRequirementStatus i status)
    with n obtain s where s: "status = Some s" by (cases status) auto
    from updateStatus_requirements [of i status w] show ?thesis
    proof
      assume "requirements (store (snd (updateStatus i status w))) = requirements (store w)"
      with h PutRequirementStatus show ?thesis
        by (simp add: every_requirement_has_status_def)
    next
      assume "\<exists>st. varchar 50 status = Inr st \<and>
         requirements (store (snd (updateStatus i status w))) =
           map (\<lambda>r. if req_id r = i then r\<lparr>req_status := st\<rparr> else r) (requirements (store w))"
      then obtain st where
        st: "varchar 50 status = Inr st"
          "requirements (store (snd (updateStatus i status w))) =
             map (\<lambda>r. if req_id r = i then r\<lparr>req_status := st\<rparr> else r) (requirements (store w))"
        by blast
      from st(1) s varchar_Some obtain y where "st = Some y"
        by blast
      with st(2) h PutRequirementStatus show ?thesis
        by (auto simp: every_requirement_has_status_def list_all_iff)
    qed
  next
    case (PutRequirement i c ct t dt)
    with h updateDetails_requirements [of i c ct t dt w] show ?thesis
      by (simp add: has_status_map)
  next
    case (DeleteRequirementById i)
    with h show ?thesis by (simp add: deleteRequirement_rejected every_requirement_has_status_def)
  next
    case (PostComment i tx fs)
    with h show ?thesis by (simp add: addComment_requirements every_requirement_has_status_def)
  next
    case GetTypes
    with h show ?thesis by (simp add: listTypes_eq every_requirement_has_status_def)
  next
    case (PostType name)
    with h show ?thesis by (simp add: createType_requirements every_requirement_has_status_def)
  next
    case (DeleteTypeById i)
    with h show ?thesis by (simp add: deleteType_requirements every_requirement_has_status_def)
  qed
  have new: "req_status r = Some ''Pending''"
    if "fst (createRequirement up now form files w) = Response 201 (RequirementBody r)" for r
  proof -
    obtain res w' where c: "createRequirement up now form files w = (res, w')"
      by (metis surj_pair)
    from createRequirement_cases [OF c] that c show ?thesis by auto
  qed
  from inv new show ?thesis by blast
qed

theorem status_kept_unless_set_to_null_witness:
  "every_requirement_has_status (store acme_world)
   \<and> every_requirement_has_status
       (store (snd (app demo_uploader 12 (PutRequirementStatus 1 (Some ''Resolved'')) acme_world)))
   \<and> map req_status
       (requirements (store (snd (app demo_uploader 12 (PostRequirement acme_form None) acme_world)))) =
       [Some ''Pending'', Some ''Pending'']"
proof -
  have h: "every_requirement_has_status (store acme_world)"
    by (simp add: every_requirement_has_status_def acme_world_def acme_db_def acme_def)
  have n: "\<forall>i. PutRequirementStatus 1 (Some ''Resolved'') \<noteq> PutRequirementStatus i None"
    by simp
  have c: "map req_status
       (requirements (store (snd (app demo_uploader 12 (PostRequirement acme_form None) acme_world)))) =
       [Some ''Pending'', Some ''Pending'']"
    by (simp add: createRequirement_def acme_form_def falsy_def files_or_empty_def
          uploadMediaToCloudinary_def pool_query_def insert_requirement_def varchar_def pg_text_def text_ok_def
          nextval_def Let_def acme_world_def acme_db_def acme_def)
  from status_kept_unless_set_to_null
         [of acme_world "PutRequirementStatus 1 (Some ''Resolved'')" demo_uploader 12 acme_form None]
    h n c show ?thesis
    by blast
qed

text \<open>
  C2 as stated fails: updateStatus with no status in the body, on the existing
  requirement 1, answers 200 and leaves the requirement with a NULL status.
\<close>

theorem updateStatus_null_counterexample:
  "every_requirement_has_status (store acme_world)
   \<and> fst (updateStatus 1 None acme_world) = Response 200 (RequirementBody (acme\<lparr>req_status := None\<rparr>))
   \<and> map req_status (requirements (store (snd (updateStatus 1 None acme_world)))) = [None]
   \<and> \<not> every_requirement_has_status (store (snd (updateStatus 1 None acme_world)))"
  by (simp add: updateStatus_def pool_query_def update_status_def int4_def is_int4_def
        varchar_def pg_text_def text_ok_def every_requirement_has_status_def Let_def
        acme_world_def acme_db_def acme_def)

subsection \<open>Creating a requirement\<close>

lemma uploadMediaToCloudinary_eq:
  "uploadMediaToCloudinary up files w =
     (fst (uploadMediaToCloudinary up files w),
      (snd (uploadMediaToCloudinary up files w)))"
  by simp





subsection \<open>Adding a comment\<close>

lemma uploadMediaToCloudinary_trace:
  "trace (snd (uploadMediaToCloudinary up files w)) =
     trace w @ concat (map attempt_events (upload_attempts up (cloud w) files))"
  by (simp add: uploadMediaToCloudinary_def upload_loop_trace)

lemma addComment_accepted:
  "\<not> (falsy tx \<and> files_or_empty files = []) \<Longrightarrow>
   addComment up now i tx files w =
     (case uploadMediaToCloudinary up (files_or_empty files) w of
        ((images, videos), w1) \<Rightarrow>
          (case insert_comment now i tx images videos (store w) of
             (Inl err, d') \<Rightarrow>
               (internal_server_error,
                w1\<lparr>store := d', trace := trace w1 @ [PoolQuery InsertComment, ConsoleError]\<rparr>)
           | (Inr rows, d') \<Rightarrow>
               (Response 201 (case rows of [] \<Rightarrow> NoBody | c # _ \<Rightarrow> CommentBody c),
                w1\<lparr>store := d', trace := trace w1 @ [PoolQuery InsertComment]\<rparr>)))"
proof -
  assume a: "\<not> (falsy tx \<and> files_or_empty files = [])"
  obtain images videos w1 where
    u: "uploadMediaToCloudinary up (files_or_empty files) w = ((images, videos), w1)"
    by (metis surj_pair)
  from uploadMediaToCloudinary_store [OF u] have s: "store w1 = store w" .
  from a u s show ?thesis
    by (auto simp: addComment_def pool_query_def console_error_def split: prod.splits sum.splits)
qed

lemma insert_comment_known:
  "is_int4 i \<Longrightarrow> text_ok tx \<Longrightarrow> comments_id_seq d \<le> 2147483647 \<Longrightarrow>
   i \<in> req_id ` set (requirements d) \<Longrightarrow>
   insert_comment now i tx images videos d =
     (Inr [\<lparr>com_id = comments_id_seq d, com_requirement_id = i, com_text = tx,
            com_images = images, com_videos = videos, com_created_at = now\<rparr>],
      d\<lparr>comments_id_seq := comments_id_seq d + 1,
        comments := comments d @
          [\<lparr>com_id = comments_id_seq d, com_requirement_id = i, com_text = tx,
            com_images = images, com_videos = videos, com_created_at = now\<rparr>]\<rparr>)"
  by (simp add: insert_comment_def int4_ok pg_text_ok nextval_ok Let_def)

lemma insert_comment_unknown:
  "i \<notin> req_id ` set (requirements d) \<Longrightarrow>
   \<exists>e d'. insert_comment now i tx images videos d = (Inl e, d') \<and> comments d' = comments d
     \<and> (is_int4 i \<and> comments_id_seq d \<le> 2147483647 \<longrightarrow>
          e = (if text_ok tx then ForeignKeyViolation else CharacterNotInRepertoire))"
  by (simp add: insert_comment_def int4_def pg_text_def nextval_def Let_def)

lemma addComment_code:
  "code (fst (addComment up now i tx files w)) = 400 \<longleftrightarrow> falsy tx \<and> files_or_empty files = []"
proof (cases "falsy tx \<and> files_or_empty files = []")
  case True
  then show ?thesis by (simp add: addComment_def)
next
  case False
  then show ?thesis
    by (simp add: addComment_accepted internal_server_error_def split: prod.splits sum.splits)
qed

text \<open>
  C10: for every addComment request that names an id which no requirement has, with a
  text or a media file, the answer is 500 (the generic server error, never 404) and no
  comment is created; the handler sends the store nothing but the INSERT (after the
  uploads), whose failure it logs; and when the id is of the column's type and the id
  sequence has a value left, the store rejects the INSERT for the foreign key, or, if
  the text holds the character U+0000, already for that character.
\<close>

theorem addComment_unknown_requirement:
  assumes "i \<notin> req_id ` set (requirements (store w))"
    and "\<not> (falsy tx \<and> files_or_empty files = [])"
  shows "fst (addComment up now i tx files w) = Response 500 (ErrorBody ''Internal Server Error'')
       \<and> code (fst (addComment up now i tx files w)) \<noteq> 404
       \<and> comments (store (snd (addComment up now i tx files w))) = comments (store w)
       \<and> trace (snd (addComment up now i tx files w)) =
           trace w @ concat (map attempt_events
                               (upload_attempts up (cloud w) (files_or_empty files)))
             @ [PoolQuery InsertComment, ConsoleError]
       \<and> (is_int4 i \<and> comments_id_seq (store w) \<le> 2147483647 \<longrightarrow>
            (\<forall>images videos.
               fst (insert_comment now i tx images videos (store w)) =
                 Inl (if text_ok tx then ForeignKeyViolation else CharacterNotInRepertoire)))"
proof -
  obtain images videos w1 where
    u: "uploadMediaToCloudinary up (files_or_empty files) w = ((images, videos), w1)"
    by (metis surj_pair)
  from uploadMediaToCloudinary_trace [of up "files_or_empty files" w] u
  have t: "trace w1 = trace w @ concat (map attempt_events
                               (upload_attempts up (cloud w) (files_or_empty files)))"
    by simp
  from insert_comment_unknown [OF assms(1), of now tx images videos] obtain e d' where
    i: "insert_comment now i tx images videos (store w) = (Inl e, d')" "comments d' = comments (store w)"
    by blast
  have fk: "fst (insert_comment now i tx im vi (store w)) =
      Inl (if text_ok tx then ForeignKeyViolation else CharacterNotInRepertoire)"
    if "is_int4 i" "comments_id_seq (store w) \<le> 2147483647" for im vi
    using insert_comment_unknown [OF assms(1), of now tx im vi] that by auto
  from assms(2) u i t fk show ?thesis
    by (simp add: addComment_accepted internal_server_error_def)
qed

theorem addComment_unknown_requirement_witness:
  "7 \<notin> req_id ` set (requirements (store acme_world))
   \<and> \<not> (falsy (Some ''hello'') \<and> files_or_empty (Some [mp4]) = [])
   \<and> fst (addComment demo_uploader 12 7 (Some ''hello'') (Some [mp4]) acme_world) =
       Response 500 (ErrorBody ''Internal Server Error'')
   \<and> trace (snd (addComment demo_uploader 12 7 (Some ''hello'') (Some [mp4]) acme_world)) =
       [UploaderUpload mp4 ''video'', PoolQuery InsertComment, ConsoleError]"
proof -
  have h: "7 \<notin> req_id ` set (requirements (store acme_world))"
    "\<not> (falsy (Some ''hello'') \<and> files_or_empty (Some [mp4]) = [])"
    by (simp_all add: falsy_def acme_world_def acme_db_def acme_def)
  from addComment_unknown_requirement [OF h, of demo_uploader 12] h show ?thesis
    by (simp add: files_or_empty_def demo_uploader_def mp4_def classify_def startsWith_def
          attempt_events_def acme_world_def)
qed

subsection \<open>The schema is an invariant\<close>

text \<open>
  Every statement of the server keeps the store within its schema, so every store that
  the server reaches from the fresh one is within it. In particular the ids that the
  sequences give are new, which is why the statements above need not check the primary
  keys.
\<close>

lemma serial_ok_next:
  "serial_ok ids seq \<Longrightarrow> nextval seq = Inr new_id \<Longrightarrow>
   new_id = seq \<and> serial_ok ids (seq + 1) \<and> serial_ok (ids @ [new_id]) (seq + 1)"
  by (auto simp: serial_ok_def nextval_def list_all_iff is_int4_def split: if_splits)

lemma serial_ok_filter: "serial_ok (map f rows) seq \<Longrightarrow> serial_ok (map f (filter P rows)) seq"
  by (auto simp: serial_ok_def list_all_iff distinct_map_filter)

lemma schema_ok_fresh: "schema_ok fresh_db"
  by (simp add: schema_ok_def serial_ok_def fresh_db_def)

lemma insert_requirement_schema:
  assumes "schema_ok d"
  shows "schema_ok (snd (insert_requirement now c ct t dt fu im vi d))"
proof (cases "varchar 255 c")
  case (Inl e)
  with assms show ?thesis by (simp add: insert_requirement_def)
next
  case c': (Inr c')
  show ?thesis
  proof (cases "varchar 255 ct")
    case (Inl e)
    with assms c' show ?thesis by (simp add: insert_requirement_def)
  next
    case ct': (Inr ct')
    show ?thesis
    proof (cases "varchar 255 t")
      case (Inl e)
      with assms c' ct' show ?thesis by (simp add: insert_requirement_def)
    next
      case t': (Inr t')
      show ?thesis
      proof (cases "nextval (requirements_id_seq d)")
        case (Inl e)
        with assms c' ct' t' show ?thesis
          by (simp add: insert_requirement_def split: sum.splits)
      next
        case (Inr new_id)
        from assms have "serial_ok (map req_id (requirements d)) (requirements_id_seq d)"
          by (simp add: schema_ok_def)
        from serial_ok_next [OF this Inr]
        have n: "new_id = requirements_id_seq d"
          "serial_ok (map req_id (requirements d)) (requirements_id_seq d + 1)"
          "serial_ok (map req_id (requirements d) @ [new_id]) (requirements_id_seq d + 1)"
          by blast+
        from varchar_result [OF c'] varchar_result [OF ct'] varchar_result [OF t']
        have f: "fits 255 c'" "fits 255 ct'" "fits 255 t'" .
        with assms c' ct' t' Inr n show ?thesis
          by (auto simp: insert_requirement_def Let_def schema_ok_def requirement_widths_ok_def
                fits_Some list_all_iff split: sum.splits option.splits)
      qed
    qed
  qed
qed

lemma set_status_ids:
  "map req_id (map (\<lambda>r. if req_id r = j then r\<lparr>req_status := st\<rparr> else r) rows) = map req_id rows"
  by (induction rows) auto

lemma set_details_ids:
  "map req_id (map (\<lambda>r. if req_id r = j
                         then r\<lparr>req_customer := c, req_contact := ct, req_type := t, req_details := dt\<rparr>
                         else r) rows) = map req_id rows"
  by (induction rows) auto

lemma schema_ok_requirements:
  assumes "schema_ok d" and "map req_id rows' = map req_id (requirements d)"
    and "list_all requirement_widths_ok rows'"
  shows "schema_ok (d\<lparr>requirements := rows'\<rparr>)"
  using assms by (simp add: schema_ok_def)

lemma update_status_schema:
  assumes "schema_ok d"
  shows "schema_ok (snd (update_status status i d))"
proof (cases "varchar 50 status")
  case (Inl e)
  with assms show ?thesis by (simp add: update_status_def split: sum.splits)
next
  case (Inr st)
  from varchar_result [OF Inr] have "fits 50 st" .
  moreover from assms have "list_all requirement_widths_ok (requirements d)"
    by (simp add: schema_ok_def)
  ultimately have
    "list_all requirement_widths_ok
       (map (\<lambda>r. if req_id r = j then r\<lparr>req_status := st\<rparr> else r) (requirements d))" for j
    by (auto simp: list_all_iff requirement_widths_ok_def)
  with assms Inr show ?thesis
    by (simp add: update_status_def Let_def schema_ok_requirements set_status_ids
          split: sum.splits)
qed

lemma update_details_schema:
  assumes "schema_ok d"
  shows "schema_ok (snd (update_details c ct t dt i d))"
proof (cases "varchar 255 c")
  case (Inl e)
  with assms show ?thesis by (simp add: update_details_def split: sum.splits)
next
  case c': (Inr c')
  show ?thesis
  proof (cases "varchar 255 ct")
    case (Inl e)
    with assms c' show ?thesis by (simp add: update_details_def split: sum.splits)
  next
    case ct': (Inr ct')
    show ?thesis
    proof (cases "varchar 255 t")
      case (Inl e)
      with assms c' ct' show ?thesis by (simp add: update_details_def split: sum.splits)
    next
      case t': (Inr t')
      from varchar_result [OF c'] varchar_result [OF ct'] varchar_result [OF t']
      have f: "fits 255 c'" "fits 255 ct'" "fits 255 t'" .
      from assms have w: "list_all requirement_widths_ok (requirements d)"
        by (simp add: schema_ok_def)
      have "list_all requirement_widths_ok
         (map (\<lambda>r. if req_id r = j
                     then r\<lparr>req_customer := x, req_contact := ct', req_type := y, req_details := z\<rparr>
                     else r) (requirements d))"
        if "c' = Some x" "t' = Some y" for j x y z
        using w f that by (auto simp: list_all_iff requirement_widths_ok_def fits_Some)
      with assms c' ct' t' show ?thesis
        by (simp add: update_details_def Let_def schema_ok_requirements set_details_ids
              split: sum.splits option.splits)
    qed
  qed
qed

lemma insert_comment_schema:
  assumes "schema_ok d"
  shows "schema_ok (snd (insert_comment now i tx im vi d))"
proof (cases "nextval (comments_id_seq d)")
  case (Inl e)
  with assms show ?thesis by (simp add: insert_comment_def split: sum.splits)
next
  case (Inr new_id)
  from assms have "serial_ok (map com_id (comments d)) (comments_id_seq d)"
    by (simp add: schema_ok_def)
  from serial_ok_next [OF this Inr]
  have n: "new_id = comments_id_seq d"
    "serial_ok (map com_id (comments d)) (comments_id_seq d + 1)"
    "serial_ok (map com_id (comments d) @ [new_id]) (comments_id_seq d + 1)"
    by blast+
  with assms Inr show ?thesis
    by (auto simp: insert_comment_def Let_def schema_ok_def int4_def list_all_iff
          split: sum.splits)
qed

lemma insert_type_schema:
  assumes "schema_ok d"
  shows "schema_ok (snd (insert_type name d))"
proof (cases "varchar 255 name")
  case (Inl e)
  with assms show ?thesis by (simp add: insert_type_def)
next
  case name': (Inr name')
  show ?thesis
  proof (cases "nextval (requirement_types_id_seq d)")
    case (Inl e)
    with assms name' show ?thesis by (simp add: insert_type_def)
  next
    case (Inr new_id)
    from assms have "serial_ok (map rt_id (requirement_types d)) (requirement_types_id_seq d)"
      by (simp add: schema_ok_def)
    from serial_ok_next [OF this Inr]
    have n: "new_id = requirement_types_id_seq d"
      "serial_ok (map rt_id (requirement_types d)) (requirement_types_id_seq d + 1)"
      "serial_ok (map rt_id (requirement_types d) @ [new_id]) (requirement_types_id_seq d + 1)"
      by blast+
    from varchar_result [OF name'] have "fits 255 name'" .
    with assms name' Inr n show ?thesis
      by (auto simp: insert_type_def Let_def schema_ok_def fits_Some list_all_iff
            split: option.splits)
  qed
qed

lemma delete_type_schema:
  assumes "schema_ok d"
  shows "schema_ok (snd (delete_type i d))"
  using assms
  by (auto simp: delete_type_def schema_ok_def serial_ok_filter distinct_map_filter list_all_iff
        split: sum.splits)

lemma pool_query_store:
  "store (snd (pool_query stmt run w)) = snd (run (store w))"
  by (simp add: pool_query_def split: prod.splits)

lemma createRequirement_accepted:
  "\<not> (falsy (customer form) \<or> falsy (type form) \<or> falsy (details form)) \<Longrightarrow>
   createRequirement up now form files w =
     (case uploadMediaToCloudinary up (files_or_empty files) w of
        ((images, videos), w1) \<Rightarrow>
          (case insert_requirement now (customer form) (contact form) (type form)
                  (details form) (followUp form) images videos (store w) of
             (Inl err, d') \<Rightarrow>
               (internal_server_error,
                w1\<lparr>store := d', trace := trace w1 @ [PoolQuery InsertRequirement, ConsoleError]\<rparr>)
           | (Inr rows, d') \<Rightarrow>
               (Response 201 (case rows of [] \<Rightarrow> NoBody | r # _ \<Rightarrow> RequirementBody r),
                w1\<lparr>store := d', trace := trace w1 @ [PoolQuery InsertRequirement]\<rparr>)))"
proof -
  assume a: "\<not> (falsy (customer form) \<or> falsy (type form) \<or> falsy (details form))"
  obtain images videos w1 where
    u: "uploadMediaToCloudinary up (files_or_empty files) w = ((images, videos), w1)"
    by (metis surj_pair)
  from uploadMediaToCloudinary_store [OF u] have s: "store w1 = store w" .
  from a u s show ?thesis
    by (auto simp: createRequirement_def pool_query_def console_error_def
          split: prod.splits sum.splits)
qed

lemma createRequirement_store:
  "store (snd (createRequirement up now form files w)) = store w
   \<or> (\<exists>im vi. store (snd (createRequirement up now form files w)) =
         snd (insert_requirement now (customer form) (contact form) (type form) (details form)
                (followUp form) im vi (store w)))"
proof (cases "falsy (customer form) \<or> falsy (type form) \<or> falsy (details form)")
  case True
  then show ?thesis by (simp add: createRequirement_def)
next
  case False
  obtain images videos w1 where
    u: "uploadMediaToCloudinary up (files_or_empty files) w = ((images, videos), w1)"
    by (metis surj_pair)
  have "store (snd (createRequirement up now form files w)) =
      snd (insert_requirement now (customer form) (contact form) (type form) (details form)
             (followUp form) images videos (store w))"
    using False u by (simp add: createRequirement_accepted split: prod.splits sum.splits)
  then show ?thesis by blast
qed

lemma updateStatus_store:
  "store (snd (updateStatus i status w)) = snd (update_status status i (store w))"
  by (simp add: updateStatus_def pool_query_def console_error_def
        split: prod.splits sum.splits list.splits)

lemma updateDetails_store:
  "store (snd (updateDetails i c ct t dt w)) = store w
   \<or> store (snd (updateDetails i c ct t dt w)) = snd (update_details c ct t dt i (store w))"
  by (simp add: updateDetails_def pool_query_def console_error_def
        split: prod.splits sum.splits list.splits)

lemma addComment_store:
  "store (snd (addComment up now i tx files w)) = store w
   \<or> (\<exists>im vi. store (snd (addComment up now i tx files w)) =
         snd (insert_comment now i tx im vi (store w)))"
proof (cases "falsy tx \<and> files_or_empty files = []")
  case True
  then show ?thesis by (simp add: addComment_def)
next
  case False
  obtain images videos w1 where
    u: "uploadMediaToCloudinary up (files_or_empty files) w = ((images, videos), w1)"
    by (metis surj_pair)
  have "store (snd (addComment up now i tx files w)) =
      snd (insert_comment now i tx images videos (store w))"
    using False u by (simp add: addComment_accepted split: prod.splits sum.splits)
  then show ?thesis by blast
qed

lemma createType_store:
  "store (snd (createType name w)) = store w
   \<or> store (snd (createType name w)) = snd (insert_type name (store w))"
  by (simp add: createType_def pool_query_def console_error_def
        split: prod.splits sum.splits list.splits)

lemma deleteType_store:
  "store (snd (deleteType i w)) = snd (delete_type i (store w))"
  by (simp add: deleteType_def pool_query_def console_error_def
        split: prod.splits sum.splits list.splits)

lemma app_schema_ok:
  assumes "schema_ok (store w)"
  shows "schema_ok (store (snd (app up now rq w)))"
proof (cases rq)
  case GetRequirements
  with assms show ?thesis by (simp add: listRequirements_eq)
next
  case (PostRequirement form files)
  with assms createRequirement_store [of up now form files w] show ?thesis
    by (auto simp: insert_requirement_schema)
next
  case (PutRequirementStatus i status)
  with assms show ?thesis by (simp add: updateStatus_store update_status_schema)
next
  case (PutRequirement i c ct t dt)
  with assms updateDetails_store [of i c ct t dt w] show ?thesis
    by (auto simp: update_details_schema)
next
  case (DeleteRequirementById i)
  with assms show ?thesis by (simp add: deleteRequirement_rejected)
next
  case (PostComment i tx files)
  with assms addComment_store [of up now i tx files w] show ?thesis
    by (auto simp: insert_comment_schema)
next
  case GetTypes
  with assms show ?thesis by (simp add: listTypes_eq)
next
  case (PostType name)
  with assms createType_store [of name w] show ?thesis
    by (auto simp: insert_type_schema)
next
  case (DeleteTypeById i)
  with assms show ?thesis by (simp add: deleteType_store delete_type_schema)
qed

lemma serve_schema_ok: "schema_ok (store w) \<Longrightarrow> schema_ok (store (serve up rqs w))"
  by (induction rqs arbitrary: w) (auto simp: app_schema_ok)

lemma schema_ok_existing_id:
  "schema_ok d \<Longrightarrow> i \<in> req_id ` set (requirements d) \<Longrightarrow> is_int4 i"
  by (auto simp: schema_ok_def serial_ok_def list_all_iff)

lemma schema_ok_existing_name:
  "schema_ok d \<Longrightarrow> n \<in> rt_name ` set (requirement_types d) \<Longrightarrow> length n \<le> 255"
  by (auto simp: schema_ok_def list_all_iff)

subsection \<open>The example stores\<close>

text \<open>
  The stores of the examples are stores that the server reaches: the scenario of the
  specification (a type, a requirement without media, a comment on it), and a longer
  one with uploads.
\<close>

lemma acme_db_reached:
  "store (serve demo_uploader
            [(9, PostType (Some ''Bug'')),
             (10, PostRequirement acme_form None),
             (11, PostComment 1 (Some ''called back'') None)] fresh_world) = acme_db"
  by (simp add: createType_def createRequirement_def addComment_def falsy_def
        files_or_empty_def uploadMediaToCloudinary_def pool_query_def insert_type_def
        insert_requirement_def insert_comment_def varchar_def pg_text_def text_ok_def nextval_def int4_def is_int4_def
        Let_def fresh_world_def fresh_db_def acme_form_def acme_db_def acme_def acme_comment_def)

lemma two_db_reached:
  "store (serve demo_uploader
            [(9, PostType (Some ''Bug'')),
             (9, PostType (Some ''Api'')),
             (10, PostRequirement acme_form None),
             (11, PostComment 1 (Some ''called back'') None),
             (20, PostRequirement
                    \<lparr>customer = Some ''Globex'', contact = Some ''555'', type = Some ''Api'',
                     details = Some ''Y'', followUp = None\<rparr> (Some [png])),
             (21, PutRequirementStatus 2 (Some ''Resolved'')),
             (25, PostComment 2 None (Some [mp4])),
             (30, PostComment 1 (Some ''done'') (Some []))] fresh_world) = two_db"
  by (simp add: createType_def createRequirement_def addComment_def updateStatus_def falsy_def
        files_or_empty_def uploadMediaToCloudinary_def demo_uploader_def png_def mp4_def
        startsWith_def pool_query_def insert_type_def update_status_def
        insert_requirement_def insert_comment_def varchar_def pg_text_def text_ok_def nextval_def int4_def is_int4_def
        Let_def fresh_world_def fresh_db_def acme_form_def two_db_def acme_def globex_def
        acme_comment_def)

subsection \<open>Adding a comment to an existing requirement\<close>

lemma schema_ok_acme: "schema_ok acme_db"
  by (simp add: schema_ok_def serial_ok_def requirement_widths_ok_def fits_def is_int4_def
        acme_db_def acme_def acme_comment_def)

lemma schema_ok_full: "schema_ok full_db"
  by (simp add: schema_ok_def serial_ok_def requirement_widths_ok_def fits_def is_int4_def
        full_db_def acme_db_def acme_def acme_comment_def)

text \<open>
  C5 (as amended): addComment answers 400 exactly when the text is empty (or absent)
  and no media file is supplied; and for every request with an empty text and at
  least one media file that names an existing requirement, on a store within its
  schema whose comment id sequence has a value left, the comment is created and
  returned with 201, with the URLs of the uploads that succeeded.
\<close>

theorem addComment_needs_text_or_media:
  "(code (fst (addComment up now i tx files w)) = 400 \<longleftrightarrow>
      falsy tx \<and> files_or_empty files = [])
   \<and> (falsy tx \<and> files_or_empty files \<noteq> [] \<and> schema_ok (store w)
        \<and> i \<in> req_id ` set (requirements (store w))
        \<and> comments_id_seq (store w) \<le> 2147483647 \<longrightarrow>
      (\<exists>c. fst (addComment up now i tx files w) = Response 201 (CommentBody c)
          \<and> com_requirement_id c = i \<and> com_text c = tx
          \<and> (com_images c, com_videos c) =
              fst (uploadMediaToCloudinary up (files_or_empty files) w)
          \<and> comments (store (snd (addComment up now i tx files w))) =
              comments (store w) @ [c]))"
proof -
  have created: "\<exists>c. fst (addComment up now i tx files w) = Response 201 (CommentBody c)
          \<and> com_requirement_id c = i \<and> com_text c = tx
          \<and> (com_images c, com_videos c) =
              fst (uploadMediaToCloudinary up (files_or_empty files) w)
          \<and> comments (store (snd (addComment up now i tx files w))) =
              comments (store w) @ [c]"
    if "files_or_empty files \<noteq> []" "schema_ok (store w)"
      "i \<in> req_id ` set (requirements (store w))"
      "comments_id_seq (store w) \<le> 2147483647" "falsy tx"
  proof -
    from that(2,3) have "is_int4 i" by (rule schema_ok_existing_id)
    moreover from that(5) have "text_ok tx" by (rule text_ok_falsy)
    ultimately show ?thesis
      using that
      by (simp add: addComment_accepted insert_comment_known split: prod.splits)
  qed
  with addComment_code show ?thesis by blast
qed

theorem addComment_needs_text_or_media_witness:
  "falsy (Some []) \<and> files_or_empty (Some [png]) \<noteq> [] \<and> schema_ok (store acme_world)
   \<and> 1 \<in> req_id ` set (requirements (store acme_world))
   \<and> comments_id_seq (store acme_world) \<le> 2147483647
   \<and> fst (addComment demo_uploader 12 1 (Some []) (Some [png]) acme_world) =
       Response 201 (CommentBody
         \<lparr>com_id = 2, com_requirement_id = 1, com_text = Some [],
          com_images = [''https://res.cloudinary.com/image/P''], com_videos = [],
          com_created_at = 12\<rparr>)
   \<and> code (fst (addComment demo_uploader 12 1 (Some []) None acme_world)) = 400"
proof -
  have h: "falsy (Some [])" "files_or_empty (Some [png]) \<noteq> []" "schema_ok (store acme_world)"
    "1 \<in> req_id ` set (requirements (store acme_world))"
    "comments_id_seq (store acme_world) \<le> 2147483647"
    "files_or_empty None = ([] :: media_file list)"
    by (simp_all add: falsy_def files_or_empty_def schema_ok_acme acme_world_def)
       (simp_all add: acme_db_def acme_def)
  have e: "fst (addComment demo_uploader 12 1 (Some []) (Some [png]) acme_world) =
       Response 201 (CommentBody
         \<lparr>com_id = 2, com_requirement_id = 1, com_text = Some [],
          com_images = [''https://res.cloudinary.com/image/P''], com_videos = [],
          com_created_at = 12\<rparr>)"
    by (simp add: addComment_def falsy_def files_or_empty_def uploadMediaToCloudinary_def
          demo_uploader_def png_def startsWith_def pool_query_def insert_comment_def
          pg_text_def text_ok_def
          int4_def is_int4_def nextval_def Let_def acme_world_def acme_db_def acme_def)
  from addComment_needs_text_or_media [of demo_uploader 12 1 "Some []" None acme_world]
    addComment_needs_text_or_media [of demo_uploader 12 1 "Some []" "Some [png]" acme_world]
    h e show ?thesis
    by simp
qed

text \<open>
  C5 as stated fails: a request with no text and one media file that names the
  requirement 7, which does not exist, is answered with 500 and creates no comment; so
  is one that names the existing requirement 1 once the comment id sequence has given
  its last value.
\<close>

theorem addComment_unknown_requirement_counterexample:
  "falsy None \<and> files_or_empty (Some [png]) \<noteq> []
   \<and> schema_ok (store acme_world) \<and> schema_ok (store full_world)
   \<and> 7 \<notin> req_id ` set (requirements (store acme_world))
   \<and> fst (addComment demo_uploader 12 7 None (Some [png]) acme_world) =
       Response 500 (ErrorBody ''Internal Server Error'')
   \<and> comments (store (snd (addComment demo_uploader 12 7 None (Some [png]) acme_world))) =
       comments (store acme_world)
   \<and> 1 \<in> req_id ` set (requirements (store full_world))
   \<and> fst (addComment demo_uploader 12 1 None (Some [png]) full_world) =
       Response 500 (ErrorBody ''Internal Server Error'')"
proof -
  have s: "schema_ok (store acme_world)" "schema_ok (store full_world)"
    by (simp_all add: schema_ok_acme schema_ok_full acme_world_def full_world_def)
  have e: "falsy None" "files_or_empty (Some [png]) \<noteq> []"
    "7 \<notin> req_id ` set (requirements (store acme_world))"
    "1 \<in> req_id ` set (requirements (store full_world))"
    by (simp_all add: falsy_def files_or_empty_def acme_world_def full_world_def full_db_def
          acme_db_def acme_def)
  have a: "fst (addComment demo_uploader 12 7 None (Some [png]) acme_world) =
       Response 500 (ErrorBody ''Internal Server Error'')"
    "comments (store (snd (addComment demo_uploader 12 7 None (Some [png]) acme_world))) =
       comments (store acme_world)"
    "fst (addComment demo_uploader 12 1 None (Some [png]) full_world) =
       Response 500 (ErrorBody ''Internal Server Error'')"
    by (simp_all add: addComment_def falsy_def files_or_empty_def uploadMediaToCloudinary_def
        demo_uploader_def png_def startsWith_def pool_query_def insert_comment_def
          pg_text_def text_ok_def
        int4_def is_int4_def nextval_def Let_def internal_server_error_def console_error_def
        acme_world_def full_world_def full_db_def acme_db_def acme_def)
  from s e a show ?thesis by simp
qed

subsection \<open>Creating a requirement type\<close>

text \<open>
  C7: createType answers 400 when the name is missing (absent or empty), and leaves the
  world as it was; for every name that is already in the table of a store within its
  schema, it answers 500 with the body of every other server failure, and the table is
  as before.
\<close>

theorem createType_missing_or_duplicate:
  "(falsy name \<longrightarrow>
      createType name w = (Response 400 (ErrorBody ''Type name is required.''), w))
   \<and> (n \<noteq> [] \<and> schema_ok (store w) \<and> n \<in> rt_name ` set (requirement_types (store w)) \<longrightarrow>
      fst (createType (Some n) w) = Response 500 (ErrorBody ''Internal Server Error'')
      \<and> fst (createType (Some n) w) = internal_server_error
      \<and> requirement_types (store (snd (createType (Some n) w))) =
          requirement_types (store w))"
proof -
  have dup: "fst (createType (Some n) w) = Response 500 (ErrorBody ''Internal Server Error'')
      \<and> fst (createType (Some n) w) = internal_server_error
      \<and> requirement_types (store (snd (createType (Some n) w))) = requirement_types (store w)"
    if "n \<noteq> []" "schema_ok (store w)" "n \<in> rt_name ` set (requirement_types (store w))"
  proof -
    from that(2,3) have "length n \<le> 255" by (rule schema_ok_existing_name)
    with that show ?thesis
      by (simp add: createType_def falsy_def pool_query_def insert_type_def varchar_def
            pg_text_def
            nextval_def Let_def internal_server_error_def console_error_def)
  qed
  have missing: "createType name w = (Response 400 (ErrorBody ''Type name is required.''), w)"
    if "falsy name"
    using that by (simp add: createType_def)
  from dup missing show ?thesis by blast
qed

theorem createType_missing_or_duplicate_witness:
  "falsy None \<and> ''Bug'' \<noteq> [] \<and> schema_ok (store acme_world)
   \<and> ''Bug'' \<in> rt_name ` set (requirement_types (store acme_world))
   \<and> createType None acme_world = (Response 400 (ErrorBody ''Type name is required.''), acme_world)
   \<and> fst (createType (Some ''Bug'') acme_world) = Response 500 (ErrorBody ''Internal Server Error'')
   \<and> requirement_types (store (snd (createType (Some ''Bug'') acme_world))) =
       [\<lparr>rt_id = 1, rt_name = ''Bug''\<rparr>]"
proof -
  have h: "falsy None" "''Bug'' \<noteq> []" "schema_ok (store acme_world)"
    "''Bug'' \<in> rt_name ` set (requirement_types (store acme_world))"
    by (simp_all add: falsy_def schema_ok_acme acme_world_def) (simp add: acme_db_def)
  from createType_missing_or_duplicate [of None acme_world "''Bug''"] h show ?thesis
    by (simp add: acme_world_def acme_db_def)
qed

end
